theory Spec2Isabelle
  imports Main "HOL-Library.AList"
begin

section \<open>Errors, results and configuration values\<close>

text \<open>
  A Go \<open>error\<close> value is either the sentinel \<open>v1alpha1.ErrRestartRequired\<close>, which the
  code recognises by identity (\<open>err == v1alpha1.ErrRestartRequired\<close>), or any other error,
  of which only the message (\<open>err.Error()\<close>) is ever read. The nil error is \<open>None\<close> of
  \<open>error option\<close>.
\<close>

datatype error = ErrRestartRequired | Err string

text \<open>A call either returns its value or panics (a nil dereference, a failed type assertion).\<close>

datatype 'a go_result = Returns 'a | Panics

text \<open>
  The configuration structs of package \<open>v1alpha1\<close>, whose declarations are not in
  config.go, with the fields that \<open>NewDefaultStunnerConfig\<close> (lines 36-61) and \<open>Reconcile\<close>
  name.
\<close>

record AdminConfig =
  LogLevel :: string

record AuthConfig =
  Type :: string
  Realm :: string
  Credentials :: "string \<rightharpoonup> string"

record ListenerConfig =
  Name :: string
  Protocol :: string
  Addr :: string
  Port :: int
  Routes :: "string list"

record ClusterConfig =
  Name :: string
  Type :: string
  Endpoints :: "string list"

record StunnerConfig =
  ApiVersion :: string
  Admin :: AdminConfig
  Auth :: AuthConfig
  Listeners :: "ListenerConfig list"
  Clusters :: "ClusterConfig list"

text \<open>The interface \<open>v1alpha1.Config\<close>: a pointer to a configuration of one of the four kinds.\<close>

datatype Config =
  AdminC AdminConfig
| AuthC AuthConfig
| ListenerC ListenerConfig
| ClusterC ClusterConfig

text \<open>The zero value \<open>v1alpha1.StunnerConfig{}\<close> of line 95.\<close>

definition StunnerConfig_zero :: StunnerConfig where
  "StunnerConfig_zero =
     \<lparr>ApiVersion = [],
      Admin = \<lparr>LogLevel = []\<rparr>,
      Auth = \<lparr>AuthConfig.Type = [], Realm = [], Credentials = Map.empty\<rparr>,
      Listeners = [],
      Clusters = []\<rparr>"

section \<open>LoadConfig\<close>

text \<open>
  \<open>LoadConfig\<close> talks to the operating system and to three libraries. The process
  environment is a map from variable names to values and is threaded through the call;
  the file system and the library functions are the fields of a \<open>Platform\<close>:
  \<^item> \<open>ReadFile\<close>: \<open>os.ReadFile\<close>, \<open>Inl\<close> the message of the error, \<open>Inr\<close> the content;
  \<^item> \<open>Atoi\<close>: \<open>strconv.Atoi\<close>, \<open>None\<close> when its error is not nil;
  \<^item> \<open>Sprintf_d\<close>: \<open>fmt.Sprintf("%d", n)\<close>;
  \<^item> \<open>ExpandEnv\<close>: \<open>os.ExpandEnv\<close>, as a function of the environment it reads;
  \<^item> \<open>yaml_Unmarshal\<close>, \<open>json_Unmarshal\<close>: the two parsers, which get the text and the
    struct to fill and give back the error (its message, \<open>None\<close> for nil) and the struct;
  \<^item> \<open>DefaultPort\<close>: the constant \<open>v1alpha1.DefaultPort\<close>.
\<close>

type_synonym environ = "string \<rightharpoonup> string"

record Platform =
  ReadFile :: "string \<Rightarrow> string + string"
  Atoi :: "string \<Rightarrow> int option"
  Sprintf_d :: "int \<Rightarrow> string"
  ExpandEnv :: "environ \<Rightarrow> string \<Rightarrow> string"
  yaml_Unmarshal :: "string \<Rightarrow> StunnerConfig \<Rightarrow> string option \<times> StunnerConfig"
  json_Unmarshal :: "string \<Rightarrow> StunnerConfig \<Rightarrow> string option \<times> StunnerConfig"
  DefaultPort :: int

definition LookupEnv :: "environ \<Rightarrow> string \<Rightarrow> string \<times> bool" where
  "LookupEnv env k = (case env k of None \<Rightarrow> ([], False) | Some v \<Rightarrow> (v, True))"

definition Setenv :: "environ \<Rightarrow> string \<Rightarrow> string \<Rightarrow> environ" where
  "Setenv env k v = env(k \<mapsto> v)"

text \<open>The regular expression \<open>^[0-9]+$\<close> of line 80: one or more characters, all of them digits.\<close>

definition re_Match :: "string \<Rightarrow> bool" where
  "re_Match port = (port \<noteq> [] \<and> list_all (\<lambda>c. c \<in> set ''0123456789'') port)"

text \<open>Lines 81-91: the default of \<open>STUNNER_PORT\<close>.\<close>

definition default_port :: "Platform \<Rightarrow> environ \<Rightarrow> environ" where
  "default_port p env =
     (case LookupEnv env ''STUNNER_PORT'' of (port, ok) \<Rightarrow>
        if \<not> ok \<or> (ok \<and> port = []) \<or> (ok \<and> \<not> re_Match port) then
          (let publicPort = DefaultPort p in
           case LookupEnv env ''STUNNER_PUBLIC_PORT'' of (publicPortStr, ok) \<Rightarrow>
             let publicPort =
                   (if ok then (case Atoi p publicPortStr of Some n \<Rightarrow> n | None \<Rightarrow> publicPort)
                    else publicPort)
             in Setenv env ''STUNNER_PORT'' (Sprintf_d p publicPort))
        else env)"

text \<open>
  Lines 95-106. The condition of the inner \<open>if\<close> tests \<open>err\<close>, the YAML error, as the source
  does; \<open>errJ.Error()\<close> on a nil \<open>errJ\<close> is a nil dereference.
\<close>

definition parse_config :: "Platform \<Rightarrow> string \<Rightarrow> string \<Rightarrow> (string + StunnerConfig) go_result" where
  "parse_config p config e =
     (let s = StunnerConfig_zero in
      case yaml_Unmarshal p e s of (err, s) \<Rightarrow>
        if err \<noteq> None then
          (case json_Unmarshal p e s of (errJ, s) \<Rightarrow>
             if err \<noteq> None then
               (case errJ of
                  None \<Rightarrow> Panics
                | Some j \<Rightarrow>
                    Returns (Inl (''could not parse config file at '' @ [CHR 0x27] @ config
                      @ [CHR 0x27] @ '': YAML parse error: '' @ the err
                      @ '', JSON parse error: '' @ j @ [CHR 0x0A])))
             else Returns (Inr s))
        else Returns (Inr s))"

text \<open>
  \<open>LoadConfig\<close> gives back what the Go function returns, and the environment it leaves
  behind.
\<close>

definition LoadConfig ::
  "Platform \<Rightarrow> environ \<Rightarrow> string \<Rightarrow> (string + StunnerConfig) go_result \<times> environ" where
  "LoadConfig p env config =
     (case ReadFile p config of
        Inl err \<Rightarrow> (Returns (Inl (''could not read config: '' @ err @ [CHR 0x0A])), env)
      | Inr c \<Rightarrow>
          (let env = default_port p env;
               e = ExpandEnv p env c
           in (parse_config p config e, env)))"

section \<open>The daemon and its collaborators\<close>

text \<open>
  Modelled from the spec: \<open>NewLoggerFactory(level)\<close> is not in config.go. It builds a
  logger factory from a level, and \<open>factory.NewLogger(scope)\<close> a logger from a factory;
  what the loggers print is outside the daemon's state and is not modelled.
\<close>

datatype LoggerFactory = NewLoggerFactory string

datatype Logger = NewLogger LoggerFactory string

text \<open>
  The fields of \<open>Stunner\<close> that config.go reads or writes. \<open>'m\<close> is the type of a resource
  manager (\<open>object.Manager\<close>) and \<open>'n\<close> the network handle passed to the listener factory.
\<close>

record ('m, 'n) Stunner =
  version :: string
  adminManager :: 'm
  authManager :: 'm
  listenerManager :: 'm
  clusterManager :: 'm
  logger :: LoggerFactory
  log :: Logger
  net :: 'n

text \<open>
  What \<open>Reconcile\<close> and \<open>GetConfig\<close> call outside config.go, as the fields of a record, with
  \<open>'o\<close> the type of a live object (\<open>object.Object\<close>):
  \<^item> \<open>Validate\<close>: \<open>req.Validate()\<close>, the validation predicate of the spec
    (\<open>Validate() \<rightarrow> error\<close>);
  \<^item> \<open>mReconcile\<close>, \<open>mUpsert\<close>, \<open>mKeys\<close>, \<open>mGet\<close>: the methods \<open>Reconcile\<close>, \<open>Upsert\<close>,
    \<open>Keys\<close> and \<open>Get\<close> of a manager; the ones that mutate give back the manager they leave,
    \<open>mReconcile\<close> also when it reports an error;
  \<^item> \<open>NewAdmin\<close>, \<open>NewAuth\<close>, \<open>NewListener\<close>, \<open>NewCluster\<close>: the factories of package
    \<open>object\<close>, each returning an object and an error;
  \<^item> \<open>oGetConfig\<close>: the method \<open>GetConfig()\<close> of an object; \<open>oLogLevel\<close>: the field
    \<open>LogLevel\<close> of an admin object;
  \<^item> \<open>DefaultAdminName\<close>, \<open>DefaultAuthName\<close>: the fixed keys of the two singletons.
\<close>

record ('m, 'o, 'n) Collaborators =
  Validate :: "StunnerConfig \<Rightarrow> error option"
  mReconcile :: "'m \<Rightarrow> Config list \<Rightarrow> 'm \<times> Config list \<times> error option"
  mUpsert :: "'m \<Rightarrow> 'o \<Rightarrow> 'm"
  mKeys :: "'m \<Rightarrow> string list"
  mGet :: "'m \<Rightarrow> string \<Rightarrow> 'o option"
  NewAdmin :: "Config \<Rightarrow> LoggerFactory \<Rightarrow> 'o \<times> error option"
  NewAuth :: "Config \<Rightarrow> LoggerFactory \<Rightarrow> 'o \<times> error option"
  NewListener :: "Config \<Rightarrow> 'n \<Rightarrow> LoggerFactory \<Rightarrow> 'o \<times> error option"
  NewCluster :: "Config \<Rightarrow> LoggerFactory \<Rightarrow> 'o \<times> error option"
  oGetConfig :: "'o \<Rightarrow> Config"
  oLogLevel :: "'o \<Rightarrow> string"
  DefaultAdminName :: string
  DefaultAuthName :: string

text \<open>
  Modelled from the spec: the accessor \<open>GetAdmin\<close> of \<open>Stunner\<close> is not in config.go. It
  reads the admin singleton from its manager, under its fixed key; \<open>None\<close> is the nil
  pointer (or the panic) of a missing object.
\<close>

definition GetAdmin :: "('m, 'o, 'n) Collaborators \<Rightarrow> ('m, 'n) Stunner \<Rightarrow> 'o option" where
  "GetAdmin x s = mGet x (adminManager s) (DefaultAdminName x)"

text \<open>
  Modelled from the spec: the accessor \<open>GetAuth\<close> is not in config.go. It reads the auth
  singleton from its manager, under its fixed key.
\<close>

definition GetAuth :: "('m, 'o, 'n) Collaborators \<Rightarrow> ('m, 'n) Stunner \<Rightarrow> 'o option" where
  "GetAuth x s = mGet x (authManager s) (DefaultAuthName x)"

text \<open>
  Modelled from the spec: the accessor \<open>GetListener\<close> is not in config.go. It reads the
  listener of the given name from the listener manager.
\<close>

definition GetListener ::
  "('m, 'o, 'n) Collaborators \<Rightarrow> ('m, 'n) Stunner \<Rightarrow> string \<Rightarrow> 'o option" where
  "GetListener x s name = mGet x (listenerManager s) name"

text \<open>
  Modelled from the spec: the accessor \<open>GetCluster\<close> is not in config.go. It reads the
  cluster of the given name from the cluster manager.
\<close>

definition GetCluster ::
  "('m, 'o, 'n) Collaborators \<Rightarrow> ('m, 'n) Stunner \<Rightarrow> string \<Rightarrow> 'o option" where
  "GetCluster x s name = mGet x (clusterManager s) name"

section \<open>GetConfig\<close>

text \<open>
  Lines 110-133. A type assertion on a configuration of another kind panics, and so does
  reading through a missing object.
\<close>

definition listener_config ::
  "('m, 'o, 'n) Collaborators \<Rightarrow> ('m, 'n) Stunner \<Rightarrow> string \<Rightarrow> ListenerConfig option" where
  "listener_config x s name =
     (case GetListener x s name of
        None \<Rightarrow> None
      | Some l \<Rightarrow> (case oGetConfig x l of ListenerC c \<Rightarrow> Some c | _ \<Rightarrow> None))"

definition cluster_config ::
  "('m, 'o, 'n) Collaborators \<Rightarrow> ('m, 'n) Stunner \<Rightarrow> string \<Rightarrow> ClusterConfig option" where
  "cluster_config x s name =
     (case GetCluster x s name of
        None \<Rightarrow> None
      | Some l \<Rightarrow> (case oGetConfig x l of ClusterC c \<Rightarrow> Some c | _ \<Rightarrow> None))"

definition admin_config ::
  "('m, 'o, 'n) Collaborators \<Rightarrow> ('m, 'n) Stunner \<Rightarrow> AdminConfig option" where
  "admin_config x s =
     (case GetAdmin x s of
        None \<Rightarrow> None
      | Some a \<Rightarrow> (case oGetConfig x a of AdminC c \<Rightarrow> Some c | _ \<Rightarrow> None))"

definition auth_config ::
  "('m, 'o, 'n) Collaborators \<Rightarrow> ('m, 'n) Stunner \<Rightarrow> AuthConfig option" where
  "auth_config x s =
     (case GetAuth x s of
        None \<Rightarrow> None
      | Some a \<Rightarrow> (case oGetConfig x a of AuthC c \<Rightarrow> Some c | _ \<Rightarrow> None))"

definition GetConfig ::
  "('m, 'o, 'n) Collaborators \<Rightarrow> ('m, 'n) Stunner \<Rightarrow> StunnerConfig go_result" where
  "GetConfig x s =
     (let listeners = mKeys x (listenerManager s);
          clusters = mKeys x (clusterManager s)
      in case admin_config x s of
           None \<Rightarrow> Panics
         | Some a \<Rightarrow>
             (case auth_config x s of
                None \<Rightarrow> Panics
              | Some u \<Rightarrow>
                  (case those (map (listener_config x s) listeners) of
                     None \<Rightarrow> Panics
                   | Some ls \<Rightarrow>
                       (case those (map (cluster_config x s) clusters) of
                          None \<Rightarrow> Panics
                        | Some cs \<Rightarrow>
                            Returns \<lparr>ApiVersion = version s, Admin = a, Auth = u,
                                     Listeners = ls, Clusters = cs\<rparr>))))"

section \<open>Reconcile\<close>

text \<open>
  The loop of lines 156-162, and of lines 176-182 and 226-232, which differ from it in the
  factory and the manager only: build an object for each configuration and upsert it,
  returning at the first error that is neither nil nor the restart sentinel. The first
  component of the result is the error returned from inside the loop, \<open>None\<close> when the
  loop ran to its end.
\<close>

fun construct ::
  "(Config \<Rightarrow> 'o \<times> error option) \<Rightarrow> ('m \<Rightarrow> 'o \<Rightarrow> 'm) \<Rightarrow> 'm \<Rightarrow> Config list \<Rightarrow> error option \<times> 'm" where
  "construct new upsert m [] = (None, m)"
| "construct new upsert m (c # cs) =
     (case new c of (ob, err) \<Rightarrow>
        if err \<noteq> None \<and> err \<noteq> Some ErrRestartRequired then (err, m)
        else construct new upsert (upsert m ob) cs)"

text \<open>The loop of lines 198-206, which also sets \<open>restart\<close> after each upsert.\<close>

fun construct_listeners ::
  "(Config \<Rightarrow> 'o \<times> error option) \<Rightarrow> ('m \<Rightarrow> 'o \<Rightarrow> 'm) \<Rightarrow> 'm \<Rightarrow> bool \<Rightarrow> Config list
     \<Rightarrow> error option \<times> 'm \<times> bool" where
  "construct_listeners new upsert m restart [] = (None, m, restart)"
| "construct_listeners new upsert m restart (c # cs) =
     (case new c of (ob, err) \<Rightarrow>
        if err \<noteq> None \<and> err \<noteq> Some ErrRestartRequired then (err, m, restart)
        else construct_listeners new upsert (upsert m ob) True cs)"

text \<open>
  Each of the four stages gives back the daemon as it leaves it, with \<open>Inl\<close> the error
  that \<open>Reconcile\<close> returns from inside the stage or \<open>Inr\<close> the value of \<open>restart\<close> with
  which the next stage starts.
\<close>

text \<open>Lines 147-162.\<close>

definition admin_stage ::
  "('m, 'o, 'n) Collaborators \<Rightarrow> ('m, 'n) Stunner \<Rightarrow> StunnerConfig \<Rightarrow> bool
     \<Rightarrow> (error + bool) \<times> ('m, 'n) Stunner" where
  "admin_stage x s req restart =
     (case mReconcile x (adminManager s) [AdminC (Admin req)] of (m, newAdmin, err) \<Rightarrow>
        (let s = s\<lparr>adminManager := m\<rparr> in
         (case err of
          Some (Err msg) \<Rightarrow> (Inl (Err (''could not reconcile admin config: '' @ msg)), s)
        | _ \<Rightarrow>
            (let restart = (if err = Some ErrRestartRequired then True else restart) in
             (case construct (\<lambda>c. NewAdmin x c (logger s)) (mUpsert x) (adminManager s) newAdmin of
              (Some e, m) \<Rightarrow> (Inl e, s\<lparr>adminManager := m\<rparr>)
            | (None, m) \<Rightarrow> (Inr restart, s\<lparr>adminManager := m\<rparr>))))))"

text \<open>Lines 163-164; \<open>None\<close> when there is no admin object to read the level from.\<close>

definition rebind_logger ::
  "('m, 'o, 'n) Collaborators \<Rightarrow> ('m, 'n) Stunner \<Rightarrow> ('m, 'n) Stunner option" where
  "rebind_logger x s =
     (case GetAdmin x s of
        None \<Rightarrow> None
      | Some a \<Rightarrow>
          (let s = s\<lparr>logger := NewLoggerFactory (oLogLevel x a)\<rparr>
           in Some (s\<lparr>log := NewLogger (logger s) ''stunner''\<rparr>)))"

text \<open>Lines 167-182.\<close>

definition auth_stage ::
  "('m, 'o, 'n) Collaborators \<Rightarrow> ('m, 'n) Stunner \<Rightarrow> StunnerConfig \<Rightarrow> bool
     \<Rightarrow> (error + bool) \<times> ('m, 'n) Stunner" where
  "auth_stage x s req restart =
     (case mReconcile x (authManager s) [AuthC (Auth req)] of (m, newAuth, err) \<Rightarrow>
        (let s = s\<lparr>authManager := m\<rparr> in
         (case err of
          Some (Err msg) \<Rightarrow> (Inl (Err (''could not reconcile auth config: '' @ msg)), s)
        | _ \<Rightarrow>
            (let restart = (if err = Some ErrRestartRequired then True else restart) in
             (case construct (\<lambda>c. NewAuth x c (logger s)) (mUpsert x) (authManager s) newAuth of
              (Some e, m) \<Rightarrow> (Inl e, s\<lparr>authManager := m\<rparr>)
            | (None, m) \<Rightarrow> (Inr restart, s\<lparr>authManager := m\<rparr>))))))"

text \<open>Lines 185-206.\<close>

definition listener_stage ::
  "('m, 'o, 'n) Collaborators \<Rightarrow> ('m, 'n) Stunner \<Rightarrow> StunnerConfig \<Rightarrow> bool
     \<Rightarrow> (error + bool) \<times> ('m, 'n) Stunner" where
  "listener_stage x s req restart =
     (let lconf = map ListenerC (Listeners req) in
      (case mReconcile x (listenerManager s) lconf of (m, newListener, err) \<Rightarrow>
        (let s = s\<lparr>listenerManager := m\<rparr> in
         (case err of
          Some (Err msg) \<Rightarrow> (Inl (Err (''could not reconcile listener config: '' @ msg)), s)
        | _ \<Rightarrow>
            (let restart = (if err = Some ErrRestartRequired then True else restart) in
             (case construct_listeners (\<lambda>c. NewListener x c (net s) (logger s)) (mUpsert x)
                   (listenerManager s) restart newListener of
              (Some e, m, restart) \<Rightarrow> (Inl e, s\<lparr>listenerManager := m\<rparr>)
            | (None, m, restart) \<Rightarrow> (Inr restart, s\<lparr>listenerManager := m\<rparr>)))))))"

text \<open>Lines 213-232.\<close>

definition cluster_stage ::
  "('m, 'o, 'n) Collaborators \<Rightarrow> ('m, 'n) Stunner \<Rightarrow> StunnerConfig \<Rightarrow> bool
     \<Rightarrow> (error + bool) \<times> ('m, 'n) Stunner" where
  "cluster_stage x s req restart =
     (let cconf = map ClusterC (Clusters req) in
      (case mReconcile x (clusterManager s) cconf of (m, newCluster, err) \<Rightarrow>
        (let s = s\<lparr>clusterManager := m\<rparr> in
         (case err of
          Some (Err msg) \<Rightarrow> (Inl (Err (''could not reconcile cluster config: '' @ msg)), s)
        | _ \<Rightarrow>
            (let restart = (if err = Some ErrRestartRequired then True else restart) in
             (case construct (\<lambda>c. NewCluster x c (logger s)) (mUpsert x) (clusterManager s) newCluster of
              (Some e, m) \<Rightarrow> (Inl e, s\<lparr>clusterManager := m\<rparr>)
            | (None, m) \<Rightarrow> (Inr restart, s\<lparr>clusterManager := m\<rparr>)))))))"

text \<open>
  Lines 136-243: the result of the call and the daemon it leaves. The two warnings
  (lines 208-210 and 234-236) and the debug line only print.
\<close>

definition Reconcile ::
  "('m, 'o, 'n) Collaborators \<Rightarrow> ('m, 'n) Stunner \<Rightarrow> StunnerConfig
     \<Rightarrow> error option go_result \<times> ('m, 'n) Stunner" where
  "Reconcile x s req =
     (case Validate x req of
        Some err \<Rightarrow> (Returns (Some err), s)
      | None \<Rightarrow>
          (case admin_stage x s req False of
             (Inl e, s) \<Rightarrow> (Returns (Some e), s)
           | (Inr restart, s) \<Rightarrow>
               (case rebind_logger x s of
                  None \<Rightarrow> (Panics, s)
                | Some s \<Rightarrow>
                    (case auth_stage x s req restart of
                       (Inl e, s) \<Rightarrow> (Returns (Some e), s)
                     | (Inr restart, s) \<Rightarrow>
                         (case listener_stage x s req restart of
                            (Inl e, s) \<Rightarrow> (Returns (Some e), s)
                          | (Inr restart, s) \<Rightarrow>
                              (case cluster_stage x s req restart of
                                 (Inl e, s) \<Rightarrow> (Returns (Some e), s)
                               | (Inr restart, s) \<Rightarrow>
                                   (if restart then Returns (Some ErrRestartRequired)
                                    else Returns None, s)))))))"

text \<open>
  The part of \<open>Reconcile\<close> that follows the rebinding of the logger (lines 166-242), from
  the daemon and the value of \<open>restart\<close> that the admin stage leaves.
\<close>

definition remaining_stages ::
  "('m, 'o, 'n) Collaborators \<Rightarrow> ('m, 'n) Stunner \<Rightarrow> StunnerConfig \<Rightarrow> bool
     \<Rightarrow> error option go_result \<times> ('m, 'n) Stunner" where
  "remaining_stages x s req restart =
     (case auth_stage x s req restart of
        (Inl e, s) \<Rightarrow> (Returns (Some e), s)
      | (Inr restart, s) \<Rightarrow>
          (case listener_stage x s req restart of
             (Inl e, s) \<Rightarrow> (Returns (Some e), s)
           | (Inr restart, s) \<Rightarrow>
               (case cluster_stage x s req restart of
                  (Inl e, s) \<Rightarrow> (Returns (Some e), s)
                | (Inr restart, s) \<Rightarrow>
                    (if restart then Returns (Some ErrRestartRequired) else Returns None, s))))"

text \<open>
  The collaborators whose auth, listener and cluster factories are handed the logger
  factory \<open>L\<close> whatever the caller passes.
\<close>

definition with_logger ::
  "LoggerFactory \<Rightarrow> ('m, 'o, 'n) Collaborators \<Rightarrow> ('m, 'o, 'n) Collaborators" where
  "with_logger L x =
     x\<lparr>NewAuth := (\<lambda>c l. NewAuth x c L),
       NewListener := (\<lambda>c n l. NewListener x c n L),
       NewCluster := (\<lambda>c l. NewCluster x c L)\<rparr>"

text \<open>
  The restart signals that \<open>Reconcile\<close> records: the sentinel returned by the \<open>Reconcile\<close>
  of one of the four managers, or a listener configuration to construct. Each manager is
  the one of the daemon \<open>s\<close> with which the call starts, since no stage touches the
  manager of another.
\<close>

definition restart_signalled ::
  "('m, 'o, 'n) Collaborators \<Rightarrow> ('m, 'n) Stunner \<Rightarrow> StunnerConfig \<Rightarrow> bool" where
  "restart_signalled x s req =
     (snd (snd (mReconcile x (adminManager s) [AdminC (Admin req)])) = Some ErrRestartRequired
      \<or> snd (snd (mReconcile x (authManager s) [AuthC (Auth req)])) = Some ErrRestartRequired
      \<or> snd (snd (mReconcile x (listenerManager s) (map ListenerC (Listeners req)))) = Some ErrRestartRequired
      \<or> fst (snd (mReconcile x (listenerManager s) (map ListenerC (Listeners req)))) \<noteq> []
      \<or> snd (snd (mReconcile x (clusterManager s) (map ClusterC (Clusters req)))) = Some ErrRestartRequired)"

section \<open>The resource manager of the spec\<close>

text \<open>
  Modelled from the spec: the resource manager (package \<open>object\<close>) is not in config.go.
  Section 4.1 of the spec gives its contract. The manager maps identity keys to objects
  and lists its keys in a fixed order: an association list, keys in the order in which
  they were first registered. \<open>'o\<close> is the type of the objects.
\<close>

type_synonym 'o Manager = "(string \<times> 'o) list"

text \<open>
  Modelled from the spec: the identity key of a configuration, the name of a listener or
  a cluster and the fixed key of a singleton.
\<close>

definition ConfigName :: "string \<Rightarrow> string \<Rightarrow> Config \<Rightarrow> string" where
  "ConfigName adminName authName c =
     (case c of
        AdminC a \<Rightarrow> adminName
      | AuthC a \<Rightarrow> authName
      | ListenerC l \<Rightarrow> ListenerConfig.Name l
      | ClusterC l \<Rightarrow> ClusterConfig.Name l)"

text \<open>Modelled from the spec: \<open>Keys()\<close>, the ordered listing of the current identities.\<close>

definition Manager_Keys :: "'o Manager \<Rightarrow> string list" where
  "Manager_Keys m = map fst m"

text \<open>Modelled from the spec: the lookup of an object by its identity key.\<close>

definition Manager_Get :: "'o Manager \<Rightarrow> string \<Rightarrow> 'o option" where
  "Manager_Get m k = map_of m k"

text \<open>
  Modelled from the spec: \<open>Upsert(object)\<close> registers the object under its identity key
  (\<open>oname\<close> reads the key of an object), overwriting a previous entry with that key.
\<close>

definition Manager_Upsert :: "('o \<Rightarrow> string) \<Rightarrow> 'o Manager \<Rightarrow> 'o \<Rightarrow> 'o Manager" where
  "Manager_Upsert oname m ob = AList.update (oname ob) ob m"

text \<open>
  Modelled from the spec: steps 1 to 3 of \<open>Reconcile(desired)\<close>. \<open>upd ob c\<close> is the
  in-place update of the object \<open>ob\<close> with the configuration \<open>c\<close>: \<open>Inr\<close> the updated object,
  \<open>Inl ErrRestartRequired\<close> when a hot update is impossible (the old object stays), \<open>Inl\<close>
  another error when the update fails, which ends the call at once. The accumulators are
  the configurations to construct and whether a restart was signalled.
\<close>

fun Manager_update_each ::
  "(Config \<Rightarrow> string) \<Rightarrow> ('o \<Rightarrow> Config \<Rightarrow> error + 'o) \<Rightarrow> 'o Manager \<Rightarrow> Config list
     \<Rightarrow> Config list \<Rightarrow> bool \<Rightarrow> (error + Config list \<times> bool) \<times> 'o Manager" where
  "Manager_update_each key upd m [] toConstruct restart = (Inr (toConstruct, restart), m)"
| "Manager_update_each key upd m (c # cs) toConstruct restart =
     (case map_of m (key c) of
        None \<Rightarrow> Manager_update_each key upd m cs (toConstruct @ [c]) restart
      | Some ob \<Rightarrow>
          (case upd ob c of
             Inr ob' \<Rightarrow> Manager_update_each key upd (AList.update (key c) ob' m) cs toConstruct restart
           | Inl ErrRestartRequired \<Rightarrow> Manager_update_each key upd m cs toConstruct True
           | Inl (Err msg) \<Rightarrow> (Inl (Err msg), m)))"

text \<open>
  Modelled from the spec: \<open>Reconcile(desired)\<close>. A failed update returns at once with its
  error (step 3). Otherwise step 4 removes every object whose key is not among the
  desired ones, whatever the updates of the other keys signalled, and a recorded restart
  is reported as the sentinel, together with the configurations to construct.
\<close>

definition Manager_Reconcile ::
  "(Config \<Rightarrow> string) \<Rightarrow> ('o \<Rightarrow> Config \<Rightarrow> error + 'o) \<Rightarrow> 'o Manager \<Rightarrow> Config list
     \<Rightarrow> 'o Manager \<times> Config list \<times> error option" where
  "Manager_Reconcile key upd m desired =
     (case Manager_update_each key upd m desired [] False of
        (Inl e, m') \<Rightarrow> (m', [], Some e)
      | (Inr (toConstruct, restart), m') \<Rightarrow>
          (filter (\<lambda>(k, ob). k \<in> set (map key desired)) m', toConstruct,
           if restart then Some ErrRestartRequired else None))"

text \<open>
  The collaborators \<open>x\<close> have the manager of the spec, with the in-place update \<open>upd\<close> and
  object names read by \<open>oname\<close>.
\<close>

definition spec_managed ::
  "('o Manager, 'o, 'n) Collaborators \<Rightarrow> ('o \<Rightarrow> Config \<Rightarrow> error + 'o) \<Rightarrow> ('o \<Rightarrow> string) \<Rightarrow> bool" where
  "spec_managed x upd oname =
     (mReconcile x = Manager_Reconcile (ConfigName (DefaultAdminName x) (DefaultAuthName x)) upd
      \<and> mUpsert x = Manager_Upsert oname
      \<and> mKeys x = Manager_Keys
      \<and> mGet x = Manager_Get)"

section \<open>A concrete daemon\<close>

text \<open>
  To run the model on concrete inputs: objects that are their configuration and nothing
  else, factories that build them without error (the cluster factory is a parameter), an
  in-place update that is hot except for a listener whose port changes, and a validation
  that rejects a listener or a cluster with an empty name.
\<close>

definition example_name :: "Config \<Rightarrow> string" where
  "example_name = ConfigName ''default-admin-config'' ''default-auth-config''"

definition example_update :: "Config \<Rightarrow> Config \<Rightarrow> error + Config" where
  "example_update ob c =
     (case (ob, c) of
        (ListenerC a, ListenerC b) \<Rightarrow> if Port a = Port b then Inr c else Inl ErrRestartRequired
      | _ \<Rightarrow> Inr c)"

definition example_Validate :: "StunnerConfig \<Rightarrow> error option" where
  "example_Validate req =
     (if [] \<in> set (map ListenerConfig.Name (Listeners req))
         \<or> [] \<in> set (map ClusterConfig.Name (Clusters req))
      then Some (Err ''empty name'') else None)"

definition factory_ok :: "Config \<Rightarrow> LoggerFactory \<Rightarrow> Config \<times> error option" where
  "factory_ok c l = (c, None)"

definition factory_restart :: "Config \<Rightarrow> LoggerFactory \<Rightarrow> Config \<times> error option" where
  "factory_restart c l = (c, Some ErrRestartRequired)"

definition factory_fails :: "Config \<Rightarrow> LoggerFactory \<Rightarrow> Config \<times> error option" where
  "factory_fails c l = (c, Some (Err ''cannot build the cluster''))"

definition example_collaborators ::
  "(Config \<Rightarrow> LoggerFactory \<Rightarrow> Config \<times> error option) \<Rightarrow> (Config Manager, Config, unit) Collaborators" where
  "example_collaborators newCluster =
     \<lparr>Validate = example_Validate,
      mReconcile = Manager_Reconcile (ConfigName ''default-admin-config'' ''default-auth-config'') example_update,
      mUpsert = Manager_Upsert example_name,
      mKeys = Manager_Keys,
      mGet = Manager_Get,
      NewAdmin = factory_ok,
      NewAuth = factory_ok,
      NewListener = (\<lambda>c n. factory_ok c),
      NewCluster = newCluster,
      oGetConfig = (\<lambda>ob. ob),
      oLogLevel = (\<lambda>ob. case ob of AdminC a \<Rightarrow> LogLevel a | _ \<Rightarrow> []),
      DefaultAdminName = ''default-admin-config'',
      DefaultAuthName = ''default-auth-config''\<rparr>"

definition example_listener :: "string \<Rightarrow> int \<Rightarrow> ListenerConfig" where
  "example_listener name port =
     \<lparr>ListenerConfig.Name = name, Protocol = ''udp'', Addr = ''127.0.0.1'', Port = port,
      Routes = [''allow-any'']\<rparr>"

definition example_cluster :: "string \<Rightarrow> ClusterConfig" where
  "example_cluster name =
     \<lparr>ClusterConfig.Name = name, ClusterConfig.Type = ''STATIC'', Endpoints = [''0.0.0.0/0'']\<rparr>"

definition example_auth :: AuthConfig where
  "example_auth = \<lparr>AuthConfig.Type = ''plaintext'', Realm = ''stunner.l7mp.io'', Credentials = Map.empty\<rparr>"

text \<open>A running daemon with the listeners A and B and one cluster.\<close>

definition example_daemon :: "(Config Manager, unit) Stunner" where
  "example_daemon =
     \<lparr>version = ''v1alpha1'',
      adminManager = [(''default-admin-config'', AdminC \<lparr>LogLevel = ''all:INFO''\<rparr>)],
      authManager = [(''default-auth-config'', AuthC example_auth)],
      listenerManager = [(''A'', ListenerC (example_listener ''A'' 3478)),
                         (''B'', ListenerC (example_listener ''B'' 3479))],
      clusterManager = [(''allow-any'', ClusterC (example_cluster ''allow-any''))],
      logger = NewLoggerFactory ''all:INFO'',
      log = NewLogger (NewLoggerFactory ''all:INFO'') ''stunner'',
      net = ()\<rparr>"

text \<open>A daemon that has no object yet.\<close>

definition empty_daemon :: "(Config Manager, unit) Stunner" where
  "empty_daemon =
     \<lparr>version = ''v1alpha1'', adminManager = [], authManager = [], listenerManager = [],
      clusterManager = [], logger = NewLoggerFactory ''all:INFO'',
      log = NewLogger (NewLoggerFactory ''all:INFO'') ''stunner'', net = ()\<rparr>"

definition example_config :: "string \<Rightarrow> ListenerConfig list \<Rightarrow> ClusterConfig list \<Rightarrow> StunnerConfig" where
  "example_config level ls cs =
     \<lparr>ApiVersion = ''v1alpha1'', Admin = \<lparr>LogLevel = level\<rparr>, Auth = example_auth,
      Listeners = ls, Clusters = cs\<rparr>"

text \<open>
  A platform for \<open>LoadConfig\<close>: a file system with the files of \<open>files\<close>, the two parsers
  given, decimal numbers read and printed, and no placeholder expanded (for file contents
  that have none).
\<close>

function show_nat :: "nat \<Rightarrow> string" where
  "show_nat n = (if n < 10 then [''0123456789'' ! n] else show_nat (n div 10) @ [''0123456789'' ! (n mod 10)])"
  by pat_completeness auto
termination
  by (relation "measure (\<lambda>n. n)") auto

definition show_int :: "int \<Rightarrow> string" where
  "show_int i = (if i < 0 then CHR ''-'' # show_nat (nat (- i)) else show_nat (nat i))"

definition digit_value :: "char \<Rightarrow> nat" where
  "digit_value c = length (takeWhile (\<lambda>d. d \<noteq> c) ''0123456789'')"

definition read_int :: "string \<Rightarrow> int option" where
  "read_int s =
     (case (case s of
              [] \<Rightarrow> (False, [])
            | c # r \<Rightarrow> if c = CHR ''-'' then (True, r) else if c = CHR ''+'' then (False, r) else (False, s))
      of (neg, ds) \<Rightarrow>
        if \<not> re_Match ds then None
        else (let v = int (foldl (\<lambda>n c. 10 * n + digit_value c) 0 ds);
                  n = (if neg then - v else v)
              in if n < - (2 ^ 63) \<or> 2 ^ 63 - 1 < n then None else Some n))"

definition example_platform ::
  "(string \<rightharpoonup> string) \<Rightarrow> (string \<Rightarrow> StunnerConfig \<Rightarrow> string option \<times> StunnerConfig)
     \<Rightarrow> (string \<Rightarrow> StunnerConfig \<Rightarrow> string option \<times> StunnerConfig) \<Rightarrow> Platform" where
  "example_platform files yaml json =
     \<lparr>ReadFile = (\<lambda>path. case files path of
                            None \<Rightarrow> Inl (''open '' @ path @ '': no such file or directory'')
                          | Some c \<Rightarrow> Inr c),
      Atoi = read_int,
      Sprintf_d = show_int,
      ExpandEnv = (\<lambda>env text. text),
      yaml_Unmarshal = yaml,
      json_Unmarshal = json,
      DefaultPort = 3478\<rparr>"

definition parser_rejects :: "string \<Rightarrow> StunnerConfig \<Rightarrow> string option \<times> StunnerConfig" where
  "parser_rejects text s = (Some ''cannot parse'', s)"

definition parser_accepts :: "string \<Rightarrow> StunnerConfig \<Rightarrow> string option \<times> StunnerConfig" where
  "parser_accepts text s = (None, s\<lparr>ApiVersion := ''v1alpha1''\<rparr>)"

definition example_files :: "string \<rightharpoonup> string" where
  "example_files = [''stunner.conf'' \<mapsto> ''apiversion: v1alpha1'']"

definition no_files :: "string \<rightharpoonup> string" where
  "no_files = Map.empty"

definition no_environ :: environ where
  "no_environ = Map.empty"

definition example_environ :: environ where
  "example_environ = [''STUNNER_PUBLIC_PORT'' \<mapsto> ''8080'', ''STUNNER_PORT'' \<mapsto> ''turn'']"

section \<open>Properties of LoadConfig\<close>

text \<open>
  C9: when the parsing of the expanded file content as YAML fails, \<open>LoadConfig\<close> never
  returns a configuration. The inner test looks at the YAML error again, which is not
  nil there, so the error branch is taken whatever the JSON parser said: with a JSON error
  the call returns the error that names both, and without one it panics on
  \<open>errJ.Error()\<close>.
\<close>

theorem LoadConfig_yaml_error_gives_no_config:
  assumes rd: "ReadFile p config = Inr c"
    and ya: "fst (yaml_Unmarshal p (ExpandEnv p (default_port p env) c) StunnerConfig_zero) = Some yerr"
  shows "(\<forall>s. fst (LoadConfig p env config) \<noteq> Returns (Inr s))
    \<and> fst (LoadConfig p env config) =
        (case fst (json_Unmarshal p (ExpandEnv p (default_port p env) c)
                     (snd (yaml_Unmarshal p (ExpandEnv p (default_port p env) c) StunnerConfig_zero))) of
           None \<Rightarrow> Panics
         | Some jerr \<Rightarrow>
             Returns (Inl (''could not parse config file at '' @ [CHR 0x27] @ config @ [CHR 0x27]
               @ '': YAML parse error: '' @ yerr @ '', JSON parse error: '' @ jerr @ [CHR 0x0A])))"
proof -
  obtain s1 where y: "yaml_Unmarshal p (ExpandEnv p (default_port p env) c) StunnerConfig_zero = (Some yerr, s1)"
    using ya by (cases "yaml_Unmarshal p (ExpandEnv p (default_port p env) c) StunnerConfig_zero") simp
  obtain errJ s2 where j: "json_Unmarshal p (ExpandEnv p (default_port p env) c) s1 = (errJ, s2)"
    by (cases "json_Unmarshal p (ExpandEnv p (default_port p env) c) s1")
  show ?thesis
    using rd y j by (cases errJ) (simp_all add: LoadConfig_def parse_config_def Let_def)
qed

theorem LoadConfig_yaml_error_gives_no_config_witness:
  "fst (LoadConfig (example_platform example_files parser_rejects parser_accepts) no_environ ''stunner.conf'')
     = Panics
   \<and> fst (LoadConfig (example_platform example_files parser_rejects parser_rejects) no_environ ''stunner.conf'')
     = Returns (Inl (''could not parse config file at '' @ [CHR 0x27] @ ''stunner.conf'' @ [CHR 0x27]
               @ '': YAML parse error: cannot parse, JSON parse error: cannot parse'' @ [CHR 0x0A]))"
proof -
  have rd: "ReadFile (example_platform example_files y j) ''stunner.conf'' = Inr ''apiversion: v1alpha1''" for y j
    by (simp add: example_platform_def example_files_def)
  have ya: "fst (yaml_Unmarshal (example_platform example_files parser_rejects j) t z) = Some ''cannot parse''" for j t z
    by (simp add: example_platform_def parser_rejects_def)
  show ?thesis
    using LoadConfig_yaml_error_gives_no_config [OF rd ya, of parser_accepts no_environ]
      LoadConfig_yaml_error_gives_no_config [OF rd ya, of parser_rejects no_environ]
    by (simp add: example_platform_def parser_rejects_def parser_accepts_def)
qed

text \<open>
  C10, as stated, fails when the file cannot be read: \<open>LoadConfig\<close> returns at line 75,
  before it looks at the environment, and \<open>STUNNER_PORT\<close> stays unset.
\<close>

theorem LoadConfig_unreadable_file_keeps_environment:
  "no_environ ''STUNNER_PORT'' = None
   \<and> snd (LoadConfig (example_platform no_files parser_accepts parser_accepts) no_environ ''stunner.conf'')
        ''STUNNER_PORT'' = None"
  by (simp add: LoadConfig_def example_platform_def no_files_def no_environ_def)

text \<open>
  C10, amended: when the file was read, and \<open>STUNNER_PORT\<close> is unset, empty or not a string
  of decimal digits, \<open>LoadConfig\<close> leaves an environment in which \<open>STUNNER_PORT\<close> is the
  number read from \<open>STUNNER_PUBLIC_PORT\<close> if that is set and parses, and the default port
  otherwise (nothing else changes), and it is this environment that is substituted into
  the file content.
\<close>

theorem LoadConfig_sets_default_port:
  assumes rd: "ReadFile p config = Inr c"
    and bad: "\<forall>v. env ''STUNNER_PORT'' = Some v \<longrightarrow> v = [] \<or> (\<exists>d\<in>set v. d \<notin> set ''0123456789'')"
  shows "snd (LoadConfig p env config) =
           env(''STUNNER_PORT'' \<mapsto>
             Sprintf_d p (case env ''STUNNER_PUBLIC_PORT'' of
                            None \<Rightarrow> DefaultPort p
                          | Some v \<Rightarrow> (case Atoi p v of Some n \<Rightarrow> n | None \<Rightarrow> DefaultPort p)))
         \<and> fst (LoadConfig p env config) =
             parse_config p config (ExpandEnv p (snd (LoadConfig p env config)) c)"
proof -
  have "default_port p env =
          env(''STUNNER_PORT'' \<mapsto>
             Sprintf_d p (case env ''STUNNER_PUBLIC_PORT'' of
                            None \<Rightarrow> DefaultPort p
                          | Some v \<Rightarrow> (case Atoi p v of Some n \<Rightarrow> n | None \<Rightarrow> DefaultPort p)))"
  proof (cases "env ''STUNNER_PORT''")
    case None
    then show ?thesis
      by (simp add: default_port_def LookupEnv_def Setenv_def Let_def split: option.splits)
  next
    case (Some v)
    with bad have "v = [] \<or> \<not> re_Match v"
      by (auto simp: re_Match_def list_all_iff)
    with Some show ?thesis
      by (auto simp: default_port_def LookupEnv_def Setenv_def Let_def split: option.splits)
  qed
  with rd show ?thesis
    by (simp add: LoadConfig_def Let_def)
qed

theorem LoadConfig_sets_default_port_witness:
  "snd (LoadConfig (example_platform example_files parser_accepts parser_accepts) example_environ ''stunner.conf'')
     = example_environ(''STUNNER_PORT'' \<mapsto> ''8080'')
   \<and> snd (LoadConfig (example_platform example_files parser_accepts parser_accepts) no_environ ''stunner.conf'')
     = no_environ(''STUNNER_PORT'' \<mapsto> ''3478'')"
proof -
  have rd: "ReadFile (example_platform example_files y j) ''stunner.conf'' = Inr ''apiversion: v1alpha1''" for y j
    by (simp add: example_platform_def example_files_def)
  have b1: "\<forall>v. example_environ ''STUNNER_PORT'' = Some v \<longrightarrow> v = [] \<or> (\<exists>d\<in>set v. d \<notin> set ''0123456789'')"
    by (simp add: example_environ_def)
  have b2: "\<forall>v. no_environ ''STUNNER_PORT'' = Some v \<longrightarrow> v = [] \<or> (\<exists>d\<in>set v. d \<notin> set ''0123456789'')"
    by (simp add: no_environ_def)
  have r: "read_int ''8080'' = Some 8080"
    by code_simp
  have s1: "show_int 8080 = ''8080''" and s2: "show_int 3478 = ''3478''"
    by (simp_all add: show_int_def)
  show ?thesis
    using LoadConfig_sets_default_port [where env = example_environ, OF rd [of parser_accepts parser_accepts] b1]
      LoadConfig_sets_default_port [where env = no_environ, OF rd [of parser_accepts parser_accepts] b2]
    by (simp add: example_platform_def example_environ_def no_environ_def r s1 s2)
qed

section \<open>Properties of GetConfig\<close>

lemma those_map_Some: "those (map Some ys) = Some ys"
  by (induction ys) simp_all

lemma those_map_defined:
  assumes "\<forall>k\<in>set ks. \<exists>v. f k = Some v"
  shows "those (map f ks) = Some (map (\<lambda>k. the (f k)) ks)"
proof -
  have "map f ks = map Some (map (\<lambda>k. the (f k)) ks)"
    using assms by (induction ks) auto
  then show ?thesis
    by (simp only: those_map_Some)
qed

text \<open>
  C8: \<open>GetConfig\<close> reads the daemon and gives back a configuration (it returns no daemon:
  there is nothing it writes). When the two singletons are there and every listed key
  leads to an object of its kind, the result has the version of the daemon, the
  configurations of the admin and the auth object, and for the listeners and the clusters
  one entry per key of \<open>Keys()\<close>, in that order, each the configuration of the object
  under that key.
\<close>

theorem GetConfig_snapshot:
  assumes admin: "GetAdmin x s = Some a" "oGetConfig x a = AdminC ac"
    and auth: "GetAuth x s = Some u" "oGetConfig x u = AuthC uc"
    and listeners: "\<forall>k\<in>set (mKeys x (listenerManager s)).
                      \<exists>l c. GetListener x s k = Some l \<and> oGetConfig x l = ListenerC c"
    and clusters: "\<forall>k\<in>set (mKeys x (clusterManager s)).
                      \<exists>l c. GetCluster x s k = Some l \<and> oGetConfig x l = ClusterC c"
  shows "\<exists>cfg. GetConfig x s = Returns cfg
           \<and> ApiVersion cfg = version s \<and> Admin cfg = ac \<and> Auth cfg = uc
           \<and> map ListenerC (Listeners cfg)
               = map (\<lambda>k. oGetConfig x (the (GetListener x s k))) (mKeys x (listenerManager s))
           \<and> map ClusterC (Clusters cfg)
               = map (\<lambda>k. oGetConfig x (the (GetCluster x s k))) (mKeys x (clusterManager s))"
proof -
  let ?ls = "map (\<lambda>k. the (listener_config x s k)) (mKeys x (listenerManager s))"
  let ?cs = "map (\<lambda>k. the (cluster_config x s k)) (mKeys x (clusterManager s))"
  have l: "those (map (listener_config x s) (mKeys x (listenerManager s))) = Some ?ls"
    using listeners by (intro those_map_defined) (auto simp: listener_config_def)
  have c: "those (map (cluster_config x s) (mKeys x (clusterManager s))) = Some ?cs"
    using clusters by (intro those_map_defined) (auto simp: cluster_config_def)
  have g: "GetConfig x s = Returns \<lparr>ApiVersion = version s, Admin = ac, Auth = uc,
                                     Listeners = ?ls, Clusters = ?cs\<rparr>"
    using admin auth l c by (simp add: GetConfig_def admin_config_def auth_config_def)
  have ml: "map ListenerC ?ls
              = map (\<lambda>k. oGetConfig x (the (GetListener x s k))) (mKeys x (listenerManager s))"
    using listeners by (auto simp: listener_config_def)
  have mc: "map ClusterC ?cs
              = map (\<lambda>k. oGetConfig x (the (GetCluster x s k))) (mKeys x (clusterManager s))"
    using clusters by (auto simp: cluster_config_def)
  show ?thesis
    using g ml mc by simp
qed

theorem GetConfig_snapshot_witness:
  "GetConfig (example_collaborators factory_ok) example_daemon
     = Returns (example_config ''all:INFO'' [example_listener ''A'' 3478, example_listener ''B'' 3479]
                  [example_cluster ''allow-any''])"
proof -
  let ?x = "example_collaborators factory_ok"
  have admin: "GetAdmin ?x example_daemon = Some (AdminC \<lparr>LogLevel = ''all:INFO''\<rparr>)"
      "oGetConfig ?x (AdminC \<lparr>LogLevel = ''all:INFO''\<rparr>) = AdminC \<lparr>LogLevel = ''all:INFO''\<rparr>"
    by (simp_all add: GetAdmin_def example_collaborators_def example_daemon_def Manager_Get_def)
  have auth: "GetAuth ?x example_daemon = Some (AuthC example_auth)"
      "oGetConfig ?x (AuthC example_auth) = AuthC example_auth"
    by (simp_all add: GetAuth_def example_collaborators_def example_daemon_def Manager_Get_def)
  have k: "mKeys ?x (listenerManager example_daemon) = [''A'', ''B'']"
      "mKeys ?x (clusterManager example_daemon) = [''allow-any'']"
    by (simp_all add: example_collaborators_def example_daemon_def Manager_Keys_def)
  have gl: "GetListener ?x example_daemon ''A'' = Some (ListenerC (example_listener ''A'' 3478))"
      "GetListener ?x example_daemon ''B'' = Some (ListenerC (example_listener ''B'' 3479))"
    by (simp_all add: GetListener_def example_collaborators_def example_daemon_def Manager_Get_def)
  have gc: "GetCluster ?x example_daemon ''allow-any'' = Some (ClusterC (example_cluster ''allow-any''))"
    by (simp add: GetCluster_def example_collaborators_def example_daemon_def Manager_Get_def)
  have og: "oGetConfig ?x = (\<lambda>ob. ob)"
    by (simp add: example_collaborators_def)
  have listeners: "\<forall>k\<in>set (mKeys ?x (listenerManager example_daemon)).
                      \<exists>l c. GetListener ?x example_daemon k = Some l \<and> oGetConfig ?x l = ListenerC c"
    by (simp add: k gl og)
  have clusters: "\<forall>k\<in>set (mKeys ?x (clusterManager example_daemon)).
                      \<exists>l c. GetCluster ?x example_daemon k = Some l \<and> oGetConfig ?x l = ClusterC c"
    by (simp add: k gc og)
  have v: "version example_daemon = ''v1alpha1''"
    by (simp add: example_daemon_def)
  obtain cfg where cfg: "GetConfig ?x example_daemon = Returns cfg"
      "ApiVersion cfg = version example_daemon" "Admin cfg = \<lparr>LogLevel = ''all:INFO''\<rparr>"
      "Auth cfg = example_auth"
      "map ListenerC (Listeners cfg)
         = map (\<lambda>k. oGetConfig ?x (the (GetListener ?x example_daemon k))) (mKeys ?x (listenerManager example_daemon))"
      "map ClusterC (Clusters cfg)
         = map (\<lambda>k. oGetConfig ?x (the (GetCluster ?x example_daemon k))) (mKeys ?x (clusterManager example_daemon))"
    using GetConfig_snapshot [OF admin auth listeners clusters] by blast
  have "Listeners cfg = [example_listener ''A'' 3478, example_listener ''B'' 3479]"
    using cfg(5) by (auto simp: k gl og)
  moreover have "Clusters cfg = [example_cluster ''allow-any'']"
    using cfg(6) by (auto simp: k gc og)
  ultimately have "cfg = example_config ''all:INFO'' [example_listener ''A'' 3478, example_listener ''B'' 3479]
                  [example_cluster ''allow-any'']"
    using cfg(2-4) v by (simp add: example_config_def)
  with cfg(1) show ?thesis by simp
qed

section \<open>Properties of Reconcile\<close>

text \<open>
  C2: when the validation of the desired configuration fails, \<open>Reconcile\<close> returns the
  error of the validation and leaves the daemon, and so each of its four managers, as it
  was.
\<close>

theorem Reconcile_invalid_config_changes_nothing:
  "Validate x req = Some err \<Longrightarrow> Reconcile x s req = (Returns (Some err), s)"
  by (simp add: Reconcile_def)

theorem Reconcile_invalid_config_changes_nothing_witness:
  "Validate (example_collaborators factory_ok) (example_config ''all:INFO'' [] [example_cluster []])
     = Some (Err ''empty name'')
   \<and> Reconcile (example_collaborators factory_ok) example_daemon
         (example_config ''all:INFO'' [] [example_cluster []])
     = (Returns (Some (Err ''empty name'')), example_daemon)"
proof -
  have v: "Validate (example_collaborators factory_ok) (example_config ''all:INFO'' [] [example_cluster []])
     = Some (Err ''empty name'')"
    by (simp add: example_collaborators_def example_Validate_def example_config_def example_cluster_def)
  show ?thesis
    using Reconcile_invalid_config_changes_nothing [OF v, of example_daemon] v by simp
qed


subsection \<open>The loops and the stages\<close>

lemma construct_error:
  "construct new ups m cs = (Some e, m') \<Longrightarrow> \<exists>msg. e = Err msg"
proof (induction cs arbitrary: m)
  case Nil
  then show ?case by simp
next
  case (Cons c cs)
  obtain ob err where n: "new c = (ob, err)" by (cases "new c")
  show ?case
  proof (cases "err \<noteq> None \<and> err \<noteq> Some ErrRestartRequired")
    case True
    with Cons.prems n have "err = Some e" by simp
    with True show ?thesis by (cases e) simp_all
  next
    case False
    with Cons.prems n have "construct new ups (ups m ob) cs = (Some e, m')" by auto
    then show ?thesis by (rule Cons.IH)
  qed
qed

lemma construct_listeners_error:
  "construct_listeners new ups m r cs = (Some e, m', r') \<Longrightarrow> \<exists>msg. e = Err msg"
proof (induction cs arbitrary: m r)
  case Nil
  then show ?case by simp
next
  case (Cons c cs)
  obtain ob err where n: "new c = (ob, err)" by (cases "new c")
  show ?case
  proof (cases "err \<noteq> None \<and> err \<noteq> Some ErrRestartRequired")
    case True
    with Cons.prems n have "err = Some e" by simp
    with True show ?thesis by (cases e) simp_all
  next
    case False
    with Cons.prems n have "construct_listeners new ups (ups m ob) True cs = (Some e, m', r')" by auto
    then show ?thesis by (rule Cons.IH)
  qed
qed

lemma construct_listeners_restart:
  "construct_listeners new ups m r cs = (None, m', r') \<Longrightarrow> r' = (r \<or> cs \<noteq> [])"
proof (induction cs arbitrary: m r)
  case Nil
  then show ?case by simp
next
  case (Cons c cs)
  obtain ob err where n: "new c = (ob, err)" by (cases "new c")
  from Cons.prems n have "construct_listeners new ups (ups m ob) True cs = (None, m', r')"
    by (auto split: if_splits)
  from Cons.IH [OF this] show ?case by simp
qed

text \<open>The loop for listeners upserts what the plain loop upserts.\<close>

lemma construct_listeners_construct:
  "fst (construct_listeners new ups m r cs) = fst (construct new ups m cs)
   \<and> fst (snd (construct_listeners new ups m r cs)) = snd (construct new ups m cs)"
proof (induction cs arbitrary: m r)
  case Nil
  then show ?case by simp
next
  case (Cons c cs)
  then show ?case by (cases "new c") simp
qed

lemma not_fatal_cases:
  "(\<forall>msg. err \<noteq> Some (Err msg)) \<longleftrightarrow> err = None \<or> err = Some ErrRestartRequired"
proof (cases err)
  case None
  then show ?thesis by simp
next
  case (Some e)
  then show ?thesis by (cases e) simp_all
qed


lemma admin_stage_Inr:
  assumes "admin_stage x s req r = (Inr r', s')"
  obtains m new err m' where
    "mReconcile x (adminManager s) [AdminC (Admin req)] = (m, new, err)"
    "err = None \<or> err = Some ErrRestartRequired"
    "construct (\<lambda>c. NewAdmin x c (logger s)) (mUpsert x) m new = (None, m')"
    "s' = s\<lparr>adminManager := m'\<rparr>"
    "r' = (r \<or> err = Some ErrRestartRequired)"
proof -
  obtain m new err where mr: "mReconcile x (adminManager s) [AdminC (Admin req)] = (m, new, err)"
    by (cases "mReconcile x (adminManager s) [AdminC (Admin req)]")
  obtain e m' where c: "construct (\<lambda>c. NewAdmin x c (logger s)) (mUpsert x) m new = (e, m')"
    by (cases "construct (\<lambda>c. NewAdmin x c (logger s)) (mUpsert x) m new")
  from assms mr c have "(err = None \<or> err = Some ErrRestartRequired) \<and> e = None
      \<and> s' = s\<lparr>adminManager := m'\<rparr> \<and> r' = (r \<or> err = Some ErrRestartRequired)"
    by (auto simp: admin_stage_def Let_def split: option.splits error.splits)
  with mr c that show thesis by blast
qed

lemma admin_stage_Inl:
  assumes "admin_stage x s req r = (Inl e, s')"
  shows "(\<exists>msg. e = Err msg) \<and> (\<exists>m'. s' = s\<lparr>adminManager := m'\<rparr>)"
proof -
  obtain m new err where mr: "mReconcile x (adminManager s) [AdminC (Admin req)] = (m, new, err)"
    by (cases "mReconcile x (adminManager s) [AdminC (Admin req)]")
  obtain e2 m' where c: "construct (\<lambda>c. NewAdmin x c (logger s)) (mUpsert x) m new = (e2, m')"
    by (cases "construct (\<lambda>c. NewAdmin x c (logger s)) (mUpsert x) m new")
  from assms mr c have "(\<exists>msg. e = Err msg) \<or> e2 = Some e" and "\<exists>m'. s' = s\<lparr>adminManager := m'\<rparr>"
    by (auto simp: admin_stage_def Let_def split: option.splits error.splits)
  with c construct_error [of "(\<lambda>c. NewAdmin x c (logger s))" "mUpsert x" m new e m'] show ?thesis
    by auto
qed

lemma auth_stage_Inr:
  assumes "auth_stage x s req r = (Inr r', s')"
  obtains m new err m' where
    "mReconcile x (authManager s) [AuthC (Auth req)] = (m, new, err)"
    "err = None \<or> err = Some ErrRestartRequired"
    "construct (\<lambda>c. NewAuth x c (logger s)) (mUpsert x) m new = (None, m')"
    "s' = s\<lparr>authManager := m'\<rparr>"
    "r' = (r \<or> err = Some ErrRestartRequired)"
proof -
  obtain m new err where mr: "mReconcile x (authManager s) [AuthC (Auth req)] = (m, new, err)"
    by (cases "mReconcile x (authManager s) [AuthC (Auth req)]")
  obtain e m' where c: "construct (\<lambda>c. NewAuth x c (logger s)) (mUpsert x) m new = (e, m')"
    by (cases "construct (\<lambda>c. NewAuth x c (logger s)) (mUpsert x) m new")
  from assms mr c have "(err = None \<or> err = Some ErrRestartRequired) \<and> e = None
      \<and> s' = s\<lparr>authManager := m'\<rparr> \<and> r' = (r \<or> err = Some ErrRestartRequired)"
    by (auto simp: auth_stage_def Let_def split: option.splits error.splits)
  with mr c that show thesis by blast
qed

lemma auth_stage_Inl:
  assumes "auth_stage x s req r = (Inl e, s')"
  shows "(\<exists>msg. e = Err msg) \<and> (\<exists>m'. s' = s\<lparr>authManager := m'\<rparr>)"
proof -
  obtain m new err where mr: "mReconcile x (authManager s) [AuthC (Auth req)] = (m, new, err)"
    by (cases "mReconcile x (authManager s) [AuthC (Auth req)]")
  obtain e2 m' where c: "construct (\<lambda>c. NewAuth x c (logger s)) (mUpsert x) m new = (e2, m')"
    by (cases "construct (\<lambda>c. NewAuth x c (logger s)) (mUpsert x) m new")
  from assms mr c have "(\<exists>msg. e = Err msg) \<or> e2 = Some e" and "\<exists>m'. s' = s\<lparr>authManager := m'\<rparr>"
    by (auto simp: auth_stage_def Let_def split: option.splits error.splits)
  with c construct_error [of "(\<lambda>c. NewAuth x c (logger s))" "mUpsert x" m new e m'] show ?thesis
    by auto
qed

lemma listener_stage_Inr:
  assumes "listener_stage x s req r = (Inr r', s')"
  obtains m new err m' where
    "mReconcile x (listenerManager s) (map ListenerC (Listeners req)) = (m, new, err)"
    "err = None \<or> err = Some ErrRestartRequired"
    "construct (\<lambda>c. NewListener x c (net s) (logger s)) (mUpsert x) m new = (None, m')"
    "s' = s\<lparr>listenerManager := m'\<rparr>"
    "r' = (r \<or> err = Some ErrRestartRequired \<or> new \<noteq> [])"
proof -
  obtain m new err where mr: "mReconcile x (listenerManager s) (map ListenerC (Listeners req)) = (m, new, err)"
    by (cases "mReconcile x (listenerManager s) (map ListenerC (Listeners req))")
  obtain e m' where c: "construct (\<lambda>c. NewListener x c (net s) (logger s)) (mUpsert x) m new = (e, m')"
    by (cases "construct (\<lambda>c. NewListener x c (net s) (logger s)) (mUpsert x) m new")
  obtain e2 m2 r2 where cl: "construct_listeners (\<lambda>c. NewListener x c (net s) (logger s)) (mUpsert x) m
        (if err = Some ErrRestartRequired then True else r) new = (e2, m2, r2)"
    by (cases "construct_listeners (\<lambda>c. NewListener x c (net s) (logger s)) (mUpsert x) m
        (if err = Some ErrRestartRequired then True else r) new")
  from construct_listeners_construct [of "(\<lambda>c. NewListener x c (net s) (logger s))" "mUpsert x" m
        "if err = Some ErrRestartRequired then True else r" new] c cl
  have same: "e2 = e" "m2 = m'" by simp_all
  from assms mr cl have 1: "(err = None \<or> err = Some ErrRestartRequired) \<and> e2 = None
      \<and> s' = s\<lparr>listenerManager := m2\<rparr> \<and> r' = r2"
    by (auto simp: listener_stage_def Let_def split: option.splits error.splits)
  with cl have "r2 = ((if err = Some ErrRestartRequired then True else r) \<or> new \<noteq> [])"
    by (auto dest: construct_listeners_restart)
  with 1 same have "(err = None \<or> err = Some ErrRestartRequired) \<and> e = None
      \<and> s' = s\<lparr>listenerManager := m'\<rparr> \<and> r' = (r \<or> err = Some ErrRestartRequired \<or> new \<noteq> [])"
    by auto
  with mr c that show thesis by blast
qed

lemma listener_stage_Inl:
  assumes "listener_stage x s req r = (Inl e, s')"
  shows "(\<exists>msg. e = Err msg) \<and> (\<exists>m'. s' = s\<lparr>listenerManager := m'\<rparr>)"
proof -
  obtain m new err where mr: "mReconcile x (listenerManager s) (map ListenerC (Listeners req)) = (m, new, err)"
    by (cases "mReconcile x (listenerManager s) (map ListenerC (Listeners req))")
  obtain e2 m' r2 where c: "construct_listeners (\<lambda>c. NewListener x c (net s) (logger s)) (mUpsert x) m
        (if err = Some ErrRestartRequired then True else r) new = (e2, m', r2)"
    by (cases "construct_listeners (\<lambda>c. NewListener x c (net s) (logger s)) (mUpsert x) m
        (if err = Some ErrRestartRequired then True else r) new")
  from assms mr c have "(\<exists>msg. e = Err msg) \<or> e2 = Some e" and "\<exists>m'. s' = s\<lparr>listenerManager := m'\<rparr>"
    by (auto simp: listener_stage_def Let_def split: option.splits error.splits)
  with c construct_listeners_error [of "(\<lambda>c. NewListener x c (net s) (logger s))" "mUpsert x" m _ new e m' r2] show ?thesis
    by auto
qed

lemma cluster_stage_Inr:
  assumes "cluster_stage x s req r = (Inr r', s')"
  obtains m new err m' where
    "mReconcile x (clusterManager s) (map ClusterC (Clusters req)) = (m, new, err)"
    "err = None \<or> err = Some ErrRestartRequired"
    "construct (\<lambda>c. NewCluster x c (logger s)) (mUpsert x) m new = (None, m')"
    "s' = s\<lparr>clusterManager := m'\<rparr>"
    "r' = (r \<or> err = Some ErrRestartRequired)"
proof -
  obtain m new err where mr: "mReconcile x (clusterManager s) (map ClusterC (Clusters req)) = (m, new, err)"
    by (cases "mReconcile x (clusterManager s) (map ClusterC (Clusters req))")
  obtain e m' where c: "construct (\<lambda>c. NewCluster x c (logger s)) (mUpsert x) m new = (e, m')"
    by (cases "construct (\<lambda>c. NewCluster x c (logger s)) (mUpsert x) m new")
  from assms mr c have "(err = None \<or> err = Some ErrRestartRequired) \<and> e = None
      \<and> s' = s\<lparr>clusterManager := m'\<rparr> \<and> r' = (r \<or> err = Some ErrRestartRequired)"
    by (auto simp: cluster_stage_def Let_def split: option.splits error.splits)
  with mr c that show thesis by blast
qed

lemma cluster_stage_Inl:
  assumes "cluster_stage x s req r = (Inl e, s')"
  shows "(\<exists>msg. e = Err msg) \<and> (\<exists>m'. s' = s\<lparr>clusterManager := m'\<rparr>)"
proof -
  obtain m new err where mr: "mReconcile x (clusterManager s) (map ClusterC (Clusters req)) = (m, new, err)"
    by (cases "mReconcile x (clusterManager s) (map ClusterC (Clusters req))")
  obtain e2 m' where c: "construct (\<lambda>c. NewCluster x c (logger s)) (mUpsert x) m new = (e2, m')"
    by (cases "construct (\<lambda>c. NewCluster x c (logger s)) (mUpsert x) m new")
  from assms mr c have "(\<exists>msg. e = Err msg) \<or> e2 = Some e" and "\<exists>m'. s' = s\<lparr>clusterManager := m'\<rparr>"
    by (auto simp: cluster_stage_def Let_def split: option.splits error.splits)
  with c construct_error [of "(\<lambda>c. NewCluster x c (logger s))" "mUpsert x" m new e m'] show ?thesis
    by auto
qed

lemma rebind_logger_Some:
  assumes "rebind_logger x s = Some s'"
  obtains a where "GetAdmin x s = Some a"
    "s' = s\<lparr>logger := NewLoggerFactory (oLogLevel x a),
              log := NewLogger (NewLoggerFactory (oLogLevel x a)) ''stunner''\<rparr>"
  using assms by (auto simp: rebind_logger_def Let_def split: option.splits)

lemma Reconcile_not_fatal:
  assumes valid: "Validate x req = None"
    and run: "Reconcile x s req = (Returns r, s')"
    and ok: "r = None \<or> r = Some ErrRestartRequired"
  obtains r1 s1 s2 r2 s3 r3 s4 r4 where
    "admin_stage x s req False = (Inr r1, s1)"
    "rebind_logger x s1 = Some s2"
    "auth_stage x s2 req r1 = (Inr r2, s3)"
    "listener_stage x s3 req r2 = (Inr r3, s4)"
    "cluster_stage x s4 req r3 = (Inr r4, s')"
    "r = (if r4 then Some ErrRestartRequired else None)"
proof -
  obtain v1 s1 where a: "admin_stage x s req False = (v1, s1)"
    by (cases "admin_stage x s req False")
  show thesis
  proof (cases v1)
    case (Inl e)
    with a admin_stage_Inl [of x s req False e s1] valid run ok show ?thesis
      by (auto simp: Reconcile_def)
  next
    case r1: (Inr r1)
    show ?thesis
    proof (cases "rebind_logger x s1")
      case None
      with a r1 valid run show ?thesis by (simp add: Reconcile_def)
    next
      case (Some s2)
      obtain v2 s3 where b: "auth_stage x s2 req r1 = (v2, s3)"
        by (cases "auth_stage x s2 req r1")
      show ?thesis
      proof (cases v2)
        case (Inl e)
        with a r1 Some b auth_stage_Inl [of x s2 req r1 e s3] valid run ok show ?thesis
          by (auto simp: Reconcile_def)
      next
        case r2: (Inr r2)
        obtain v3 s4 where c: "listener_stage x s3 req r2 = (v3, s4)"
          by (cases "listener_stage x s3 req r2")
        show ?thesis
        proof (cases v3)
          case (Inl e)
          with a r1 Some b r2 c listener_stage_Inl [of x s3 req r2 e s4] valid run ok show ?thesis
            by (auto simp: Reconcile_def)
        next
          case r3: (Inr r3)
          obtain v4 s5 where d: "cluster_stage x s4 req r3 = (v4, s5)"
            by (cases "cluster_stage x s4 req r3")
          show ?thesis
          proof (cases v4)
            case (Inl e)
            with a r1 Some b r2 c r3 d cluster_stage_Inl [of x s4 req r3 e s5] valid run ok show ?thesis
              by (auto simp: Reconcile_def)
          next
            case r4: (Inr r4)
            with a r1 Some b r2 c r3 d valid run
            have "s' = s5" "r = (if r4 then Some ErrRestartRequired else None)"
              by (auto simp: Reconcile_def split: if_splits)
            with a r1 Some b r2 c r3 d r4 that show ?thesis by blast
          qed
        qed
      qed
    qed
  qed
qed

text \<open>
  When \<open>Reconcile\<close> returns without a fatal error, all four stages ran, and the verdict is
  the restart flag that the last one leaves.
\<close>

lemma Reconcile_verdict:
  assumes valid: "Validate x req = None"
    and run: "Reconcile x s req = (Returns r, s')"
    and ok: "r = None \<or> r = Some ErrRestartRequired"
  shows "r = (if restart_signalled x s req then Some ErrRestartRequired else None)"
proof -
  from valid run ok obtain r1 s1 s2 r2 s3 r3 s4 r4 where
    a: "admin_stage x s req False = (Inr r1, s1)" and
    l: "rebind_logger x s1 = Some s2" and
    b: "auth_stage x s2 req r1 = (Inr r2, s3)" and
    c: "listener_stage x s3 req r2 = (Inr r3, s4)" and
    d: "cluster_stage x s4 req r3 = (Inr r4, s')" and
    r: "r = (if r4 then Some ErrRestartRequired else None)"
    by (rule Reconcile_not_fatal)
  from a obtain m1 n1 e1 m1' where a':
    "mReconcile x (adminManager s) [AdminC (Admin req)] = (m1, n1, e1)"
    "s1 = s\<lparr>adminManager := m1'\<rparr>" "r1 = (False \<or> e1 = Some ErrRestartRequired)"
    by (rule admin_stage_Inr)
  from l obtain a0 where l': "s2 = s1\<lparr>logger := NewLoggerFactory (oLogLevel x a0),
              log := NewLogger (NewLoggerFactory (oLogLevel x a0)) ''stunner''\<rparr>"
    by (rule rebind_logger_Some)
  from b obtain m2 n2 e2 m2' where b':
    "mReconcile x (authManager s2) [AuthC (Auth req)] = (m2, n2, e2)"
    "s3 = s2\<lparr>authManager := m2'\<rparr>" "r2 = (r1 \<or> e2 = Some ErrRestartRequired)"
    by (rule auth_stage_Inr)
  from c obtain m3 n3 e3 m3' where c':
    "mReconcile x (listenerManager s3) (map ListenerC (Listeners req)) = (m3, n3, e3)"
    "s4 = s3\<lparr>listenerManager := m3'\<rparr>" "r3 = (r2 \<or> e3 = Some ErrRestartRequired \<or> n3 \<noteq> [])"
    by (rule listener_stage_Inr)
  from d obtain m4 n4 e4 m4' where d':
    "mReconcile x (clusterManager s4) (map ClusterC (Clusters req)) = (m4, n4, e4)"
    "r4 = (r3 \<or> e4 = Some ErrRestartRequired)"
    by (rule cluster_stage_Inr)
  have f: "authManager s2 = authManager s" "listenerManager s3 = listenerManager s"
    "clusterManager s4 = clusterManager s"
    by (simp_all add: a'(2) l' b'(2) c'(2))
  from a'(1) b'(1) c'(1) d'(1) f have "restart_signalled x s req = r4"
    by (simp add: restart_signalled_def a'(3) b'(3) c'(3) d'(2))
  with r show ?thesis by simp
qed

text \<open>The definitions that a run of the concrete daemon unfolds.\<close>

lemmas ex_defs = example_collaborators_def example_daemon_def empty_daemon_def example_config_def
  example_listener_def example_cluster_def example_Validate_def example_update_def example_name_def
  ConfigName_def Manager_Reconcile_def Manager_Upsert_def Manager_Keys_def Manager_Get_def
  factory_ok_def factory_restart_def factory_fails_def
  Reconcile_def admin_stage_def auth_stage_def listener_stage_def cluster_stage_def rebind_logger_def
  GetAdmin_def Let_def

subsection \<open>The verdict\<close>

text \<open>
  C1, as stated, fails for a desired configuration without listeners: on a daemon that
  has no object yet every name of the configuration is novel, the listener manager gives
  back every listener configuration (there is none) and the cluster manager the one new
  cluster, and \<open>Reconcile\<close> returns nil. New clusters alone force no restart.
\<close>

theorem novel_clusters_without_listeners_no_restart:
  "fst (snd (mReconcile (example_collaborators factory_ok) (listenerManager empty_daemon)
         (map ListenerC (Listeners (example_config ''all:INFO'' [] [example_cluster ''allow-any''])))))
     = map ListenerC (Listeners (example_config ''all:INFO'' [] [example_cluster ''allow-any'']))
   \<and> fst (snd (mReconcile (example_collaborators factory_ok) (clusterManager empty_daemon)
         (map ClusterC (Clusters (example_config ''all:INFO'' [] [example_cluster ''allow-any''])))))
     = map ClusterC (Clusters (example_config ''all:INFO'' [] [example_cluster ''allow-any'']))
   \<and> fst (Reconcile (example_collaborators factory_ok) empty_daemon
          (example_config ''all:INFO'' [] [example_cluster ''allow-any''])) = Returns None"
  by (simp add: ex_defs)

text \<open>
  C1, amended: when the listener manager gives back at least one listener configuration to
  construct (as it does when the desired configuration has a listener and every listener
  name is novel) and no fatal error occurs, \<open>Reconcile\<close> returns the restart sentinel.
\<close>

theorem new_listener_forces_restart:
  assumes valid: "Validate x req = None"
    and run: "Reconcile x s req = (Returns r, s')"
    and ok: "r = None \<or> r = Some ErrRestartRequired"
    and new: "fst (snd (mReconcile x (listenerManager s) (map ListenerC (Listeners req)))) \<noteq> []"
  shows "r = Some ErrRestartRequired"
  using Reconcile_verdict [OF valid run ok] new by (simp add: restart_signalled_def)

theorem new_listener_forces_restart_witness:
  "Validate (example_collaborators factory_ok)
       (example_config ''all:INFO'' [example_listener ''B'' 3479, example_listener ''C'' 3480]
             [example_cluster ''allow-any'']) = None
   \<and> fst (snd (mReconcile (example_collaborators factory_ok) (listenerManager example_daemon)
         (map ListenerC (Listeners (example_config ''all:INFO''
            [example_listener ''B'' 3479, example_listener ''C'' 3480] [example_cluster ''allow-any''])))))
       = [ListenerC (example_listener ''C'' 3480)]
   \<and> fst (Reconcile (example_collaborators factory_ok) example_daemon
          (example_config ''all:INFO'' [example_listener ''B'' 3479, example_listener ''C'' 3480]
             [example_cluster ''allow-any''])) = Returns (Some ErrRestartRequired)"
proof -
  let ?x = "example_collaborators factory_ok"
  let ?req = "example_config ''all:INFO'' [example_listener ''B'' 3479, example_listener ''C'' 3480]
             [example_cluster ''allow-any'']"
  have valid: "Validate ?x ?req = None"
    by (simp add: ex_defs)
  have new: "fst (snd (mReconcile ?x (listenerManager example_daemon) (map ListenerC (Listeners ?req))))
       = [ListenerC (example_listener ''C'' 3480)]"
    by (simp add: ex_defs)
  have "\<exists>r s'. Reconcile ?x example_daemon ?req = (Returns r, s') \<and> (r = None \<or> r = Some ErrRestartRequired)"
    by (simp add: ex_defs)
  then obtain r s' where run: "Reconcile ?x example_daemon ?req = (Returns r, s')"
    and ok: "r = None \<or> r = Some ErrRestartRequired"
    by blast
  from new have "fst (snd (mReconcile ?x (listenerManager example_daemon) (map ListenerC (Listeners ?req)))) \<noteq> []"
    by simp
  from new_listener_forces_restart [OF valid run ok this] run valid new show ?thesis
    by simp
qed

text \<open>
  C3, as stated, fails for a factory that returns the restart sentinel: the object is
  upserted and the sentinel dropped. Here the cluster factory returns it for the new
  cluster, nothing else asks for a restart, and \<open>Reconcile\<close> returns nil.
\<close>

theorem cluster_factory_restart_is_dropped:
  "NewCluster (example_collaborators factory_restart) (ClusterC (example_cluster ''new''))
       (NewLoggerFactory ''all:INFO'')
     = (ClusterC (example_cluster ''new''), Some ErrRestartRequired)
   \<and> fst (Reconcile (example_collaborators factory_restart) example_daemon
          (example_config ''all:INFO'' [example_listener ''A'' 3478, example_listener ''B'' 3479]
             [example_cluster ''allow-any'', example_cluster ''new''])) = Returns None"
  by (simp add: ex_defs)

text \<open>
  C3, amended: when no fatal error occurs, \<open>Reconcile\<close> returns the restart sentinel if
  the \<open>Reconcile\<close> of one of the four managers returned it or a listener was newly
  constructed, and nil otherwise; the sentinel returned by a factory is tolerated and
  counts for nothing.
\<close>

theorem Reconcile_restart_verdict:
  assumes valid: "Validate x req = None"
    and run: "Reconcile x s req = (Returns r, s')"
    and ok: "r = None \<or> r = Some ErrRestartRequired"
  shows "r = (if restart_signalled x s req then Some ErrRestartRequired else None)"
  using valid run ok by (rule Reconcile_verdict)

theorem Reconcile_restart_verdict_witness:
  "restart_signalled (example_collaborators factory_ok) example_daemon
       (example_config ''all:INFO'' [example_listener ''A'' 3478, example_listener ''B'' 4000]
             [example_cluster ''allow-any''])
   \<and> fst (Reconcile (example_collaborators factory_ok) example_daemon
          (example_config ''all:INFO'' [example_listener ''A'' 3478, example_listener ''B'' 4000]
             [example_cluster ''allow-any''])) = Returns (Some ErrRestartRequired)
   \<and> \<not> restart_signalled (example_collaborators factory_ok) example_daemon
       (example_config ''all:INFO'' [example_listener ''A'' 3478, example_listener ''B'' 3479]
             [example_cluster ''allow-any''])
   \<and> fst (Reconcile (example_collaborators factory_ok) example_daemon
          (example_config ''all:INFO'' [example_listener ''A'' 3478, example_listener ''B'' 3479]
             [example_cluster ''allow-any''])) = Returns None"
proof -
  let ?x = "example_collaborators factory_ok"
  let ?req1 = "example_config ''all:INFO'' [example_listener ''A'' 3478, example_listener ''B'' 4000]
             [example_cluster ''allow-any'']"
  let ?req2 = "example_config ''all:INFO'' [example_listener ''A'' 3478, example_listener ''B'' 3479]
             [example_cluster ''allow-any'']"
  have valid: "Validate ?x ?req1 = None" "Validate ?x ?req2 = None"
    by (simp_all add: ex_defs)
  have sig: "restart_signalled ?x example_daemon ?req1" "\<not> restart_signalled ?x example_daemon ?req2"
    by (simp_all add: restart_signalled_def ex_defs)
  have "\<exists>r s'. Reconcile ?x example_daemon ?req1 = (Returns r, s') \<and> (r = None \<or> r = Some ErrRestartRequired)"
    by (simp add: ex_defs)
  then obtain r1 s1 where run1: "Reconcile ?x example_daemon ?req1 = (Returns r1, s1)"
    and ok1: "r1 = None \<or> r1 = Some ErrRestartRequired"
    by blast
  have "\<exists>r s'. Reconcile ?x example_daemon ?req2 = (Returns r, s') \<and> (r = None \<or> r = Some ErrRestartRequired)"
    by (simp add: ex_defs)
  then obtain r2 s2 where run2: "Reconcile ?x example_daemon ?req2 = (Returns r2, s2)"
    and ok2: "r2 = None \<or> r2 = Some ErrRestartRequired"
    by blast
  from Reconcile_restart_verdict [OF valid(1) run1 ok1] Reconcile_restart_verdict [OF valid(2) run2 ok2]
    sig run1 run2
  show ?thesis by simp
qed

subsection \<open>Fatal errors\<close>

lemma construct_stops_at_failure:
  assumes "\<forall>c'\<in>set pre. snd (new c') = None \<or> snd (new c') = Some ErrRestartRequired"
    and "new c = (ob, Some (Err msg))"
  shows "construct new ups m (pre @ c # post)
           = (Some (Err msg), foldl ups m (map (\<lambda>c'. fst (new c')) pre))"
  using assms
proof (induction pre arbitrary: m)
  case Nil
  then show ?case by simp
next
  case (Cons p pre)
  obtain ob' err' where p: "new p = (ob', err')" by (cases "new p")
  with Cons.prems have "err' = None \<or> err' = Some ErrRestartRequired" by auto
  with p Cons show ?case by auto
qed

lemma stage_frames:
  "\<exists>m'. snd (admin_stage x s req r) = s\<lparr>adminManager := m'\<rparr>"
  "\<exists>m'. snd (auth_stage x s req r) = s\<lparr>authManager := m'\<rparr>"
  "\<exists>m'. snd (listener_stage x s req r) = s\<lparr>listenerManager := m'\<rparr>"
  "\<exists>m'. snd (cluster_stage x s req r) = s\<lparr>clusterManager := m'\<rparr>"
  by (auto simp: admin_stage_def auth_stage_def listener_stage_def cluster_stage_def Let_def
      split: prod.splits option.splits error.splits)

lemma cluster_stage_factory_failure:
  assumes manager: "mReconcile x (clusterManager s) (map ClusterC (Clusters req)) = (m, pre @ c # post, err)"
    and manager_ok: "err = None \<or> err = Some ErrRestartRequired"
    and pre_ok: "\<forall>c'\<in>set pre. snd (NewCluster x c' (logger s)) = None
                   \<or> snd (NewCluster x c' (logger s)) = Some ErrRestartRequired"
    and fails: "NewCluster x c (logger s) = (ob, Some (Err msg))"
  shows "cluster_stage x s req r
           = (Inl (Err msg),
              s\<lparr>clusterManager := foldl (mUpsert x) m (map (\<lambda>c'. fst (NewCluster x c' (logger s))) pre)\<rparr>)"
proof -
  have "construct (\<lambda>c. NewCluster x c (logger s)) (mUpsert x) m (pre @ c # post)
          = (Some (Err msg), foldl (mUpsert x) m (map (\<lambda>c'. fst (NewCluster x c' (logger s))) pre))"
    using pre_ok fails by (intro construct_stops_at_failure) auto
  with manager manager_ok show ?thesis
    by (auto simp: cluster_stage_def Let_def)
qed

text \<open>
  C4: a fatal error in a stage is what \<open>Reconcile\<close> returns (the error of a manager
  wrapped in a message that names the stage, the error of a factory as it is), the
  stages after it do not run, so their managers are as before the call, and the managers
  of the stages before it stay as those stages left them. In particular, when the cluster
  factory fails on a configuration \<open>c\<close> after building the objects for \<open>pre\<close>, \<open>Reconcile\<close>
  returns that error, the listener manager is the one the listener stage left, and the
  clusters built before the failure stay upserted.
\<close>

theorem fatal_error_aborts_without_rollback:
  assumes valid: "Validate x req = None"
  shows "(admin_stage x s req False = (Inl e, t) \<longrightarrow>
            Reconcile x s req = (Returns (Some e), t) \<and> (\<exists>msg. e = Err msg)
            \<and> authManager t = authManager s \<and> listenerManager t = listenerManager s
            \<and> clusterManager t = clusterManager s)
       \<and> (admin_stage x s req False = (Inr r1, s1) \<and> rebind_logger x s1 = Some s2 \<longrightarrow>
           (auth_stage x s2 req r1 = (Inl e, t) \<longrightarrow>
              Reconcile x s req = (Returns (Some e), t) \<and> (\<exists>msg. e = Err msg)
              \<and> adminManager t = adminManager s1 \<and> listenerManager t = listenerManager s
              \<and> clusterManager t = clusterManager s)
         \<and> (auth_stage x s2 req r1 = (Inr r2, s3) \<longrightarrow>
             (listener_stage x s3 req r2 = (Inl e, t) \<longrightarrow>
                Reconcile x s req = (Returns (Some e), t) \<and> (\<exists>msg. e = Err msg)
                \<and> adminManager t = adminManager s1 \<and> authManager t = authManager s3
                \<and> clusterManager t = clusterManager s)
           \<and> (listener_stage x s3 req r2 = (Inr r3, s4) \<longrightarrow>
               (cluster_stage x s4 req r3 = (Inl e, t) \<longrightarrow>
                  Reconcile x s req = (Returns (Some e), t) \<and> (\<exists>msg. e = Err msg)
                  \<and> adminManager t = adminManager s1 \<and> authManager t = authManager s3
                  \<and> listenerManager t = listenerManager s4)
             \<and> (mReconcile x (clusterManager s4) (map ClusterC (Clusters req)) = (m, pre @ c # post, err)
                  \<and> (err = None \<or> err = Some ErrRestartRequired)
                  \<and> (\<forall>c'\<in>set pre. snd (NewCluster x c' (logger s4)) = None
                         \<or> snd (NewCluster x c' (logger s4)) = Some ErrRestartRequired)
                  \<and> NewCluster x c (logger s4) = (ob, Some (Err msg)) \<longrightarrow>
                  Reconcile x s req
                    = (Returns (Some (Err msg)),
                       s4\<lparr>clusterManager :=
                            foldl (mUpsert x) m (map (\<lambda>c'. fst (NewCluster x c' (logger s4))) pre)\<rparr>)))))"
proof -
  have A: "Reconcile x s req = (Returns (Some e), t) \<and> (\<exists>msg. e = Err msg)
            \<and> authManager t = authManager s \<and> listenerManager t = listenerManager s
            \<and> clusterManager t = clusterManager s"
    if a: "admin_stage x s req False = (Inl e, t)" for e t
    using valid a admin_stage_Inl [OF a] by (auto simp: Reconcile_def)
  have B: "Reconcile x s req = (Returns (Some e), t) \<and> (\<exists>msg. e = Err msg)
              \<and> adminManager t = adminManager s1 \<and> listenerManager t = listenerManager s
              \<and> clusterManager t = clusterManager s"
    if a: "admin_stage x s req False = (Inr r1, s1)" and l: "rebind_logger x s1 = Some s2"
      and b: "auth_stage x s2 req r1 = (Inl e, t)" for e t
  proof -
    from a obtain m1 where "s1 = s\<lparr>adminManager := m1\<rparr>" by (auto elim: admin_stage_Inr)
    moreover from l obtain a0 where "s2 = s1\<lparr>logger := NewLoggerFactory (oLogLevel x a0),
              log := NewLogger (NewLoggerFactory (oLogLevel x a0)) ''stunner''\<rparr>"
      by (rule rebind_logger_Some)
    ultimately show ?thesis
      using valid a l b auth_stage_Inl [OF b] by (auto simp: Reconcile_def)
  qed
  have C: "Reconcile x s req = (Returns (Some e), t) \<and> (\<exists>msg. e = Err msg)
                \<and> adminManager t = adminManager s1 \<and> authManager t = authManager s3
                \<and> clusterManager t = clusterManager s"
    if a: "admin_stage x s req False = (Inr r1, s1)" and l: "rebind_logger x s1 = Some s2"
      and b: "auth_stage x s2 req r1 = (Inr r2, s3)"
      and c: "listener_stage x s3 req r2 = (Inl e, t)" for e t
  proof -
    from a obtain m1 where "s1 = s\<lparr>adminManager := m1\<rparr>" by (auto elim: admin_stage_Inr)
    moreover from l obtain a0 where "s2 = s1\<lparr>logger := NewLoggerFactory (oLogLevel x a0),
              log := NewLogger (NewLoggerFactory (oLogLevel x a0)) ''stunner''\<rparr>"
      by (rule rebind_logger_Some)
    moreover from b obtain m2 where "s3 = s2\<lparr>authManager := m2\<rparr>" by (auto elim: auth_stage_Inr)
    ultimately show ?thesis
      using valid a l b c listener_stage_Inl [OF c] by (auto simp: Reconcile_def)
  qed
  have D: "Reconcile x s req = (Returns (Some e), t) \<and> (\<exists>msg. e = Err msg)
                  \<and> adminManager t = adminManager s1 \<and> authManager t = authManager s3
                  \<and> listenerManager t = listenerManager s4"
    if a: "admin_stage x s req False = (Inr r1, s1)" and l: "rebind_logger x s1 = Some s2"
      and b: "auth_stage x s2 req r1 = (Inr r2, s3)"
      and c: "listener_stage x s3 req r2 = (Inr r3, s4)"
      and d: "cluster_stage x s4 req r3 = (Inl e, t)" for e t
  proof -
    from a obtain m1 where "s1 = s\<lparr>adminManager := m1\<rparr>" by (auto elim: admin_stage_Inr)
    moreover from l obtain a0 where "s2 = s1\<lparr>logger := NewLoggerFactory (oLogLevel x a0),
              log := NewLogger (NewLoggerFactory (oLogLevel x a0)) ''stunner''\<rparr>"
      by (rule rebind_logger_Some)
    moreover from b obtain m2 where "s3 = s2\<lparr>authManager := m2\<rparr>" by (auto elim: auth_stage_Inr)
    moreover from c obtain m3 where "s4 = s3\<lparr>listenerManager := m3\<rparr>" by (auto elim: listener_stage_Inr)
    ultimately show ?thesis
      using valid a l b c d cluster_stage_Inl [OF d] by (auto simp: Reconcile_def)
  qed
  have E: "Reconcile x s req
                    = (Returns (Some (Err msg)),
                       s4\<lparr>clusterManager :=
                            foldl (mUpsert x) m (map (\<lambda>c'. fst (NewCluster x c' (logger s4))) pre)\<rparr>)"
    if a: "admin_stage x s req False = (Inr r1, s1)" and l: "rebind_logger x s1 = Some s2"
      and b: "auth_stage x s2 req r1 = (Inr r2, s3)"
      and c: "listener_stage x s3 req r2 = (Inr r3, s4)"
      and manager: "mReconcile x (clusterManager s4) (map ClusterC (Clusters req)) = (m, pre @ c0 # post, err)"
      and manager_ok: "err = None \<or> err = Some ErrRestartRequired"
      and pre_ok: "\<forall>c'\<in>set pre. snd (NewCluster x c' (logger s4)) = None
                         \<or> snd (NewCluster x c' (logger s4)) = Some ErrRestartRequired"
      and fails: "NewCluster x c0 (logger s4) = (ob, Some (Err msg))" for c0
    using D [OF a l b c cluster_stage_factory_failure [OF manager manager_ok pre_ok fails]]
    by simp
  show ?thesis
    using A B C D E by blast
qed

theorem fatal_error_aborts_without_rollback_witness:
  "fst (Reconcile (example_collaborators factory_fails) example_daemon
          (example_config ''all:INFO'' [example_listener ''B'' 3479, example_listener ''C'' 3480]
             [example_cluster ''allow-any'', example_cluster ''new'']))
     = Returns (Some (Err ''cannot build the cluster''))
   \<and> listenerManager (snd (Reconcile (example_collaborators factory_fails) example_daemon
          (example_config ''all:INFO'' [example_listener ''B'' 3479, example_listener ''C'' 3480]
             [example_cluster ''allow-any'', example_cluster ''new''])))
     = [(''B'', ListenerC (example_listener ''B'' 3479)), (''C'', ListenerC (example_listener ''C'' 3480))]
   \<and> clusterManager (snd (Reconcile (example_collaborators factory_fails) example_daemon
          (example_config ''all:INFO'' [example_listener ''B'' 3479, example_listener ''C'' 3480]
             [example_cluster ''allow-any'', example_cluster ''new''])))
     = [(''allow-any'', ClusterC (example_cluster ''allow-any''))]"
proof -
  let ?x = "example_collaborators factory_fails"
  let ?req = "example_config ''all:INFO'' [example_listener ''B'' 3479, example_listener ''C'' 3480]
             [example_cluster ''allow-any'', example_cluster ''new'']"
  let ?L = "NewLoggerFactory ''all:INFO''"
  let ?s4 = "example_daemon\<lparr>listenerManager :=
       [(''B'', ListenerC (example_listener ''B'' 3479)), (''C'', ListenerC (example_listener ''C'' 3480))]\<rparr>"
  have valid: "Validate ?x ?req = None"
    by (simp add: ex_defs)
  have a: "admin_stage ?x example_daemon ?req False = (Inr False, example_daemon)"
    by (simp add: ex_defs)
  have l: "rebind_logger ?x example_daemon = Some example_daemon"
    by (simp add: ex_defs)
  have b: "auth_stage ?x example_daemon ?req False = (Inr False, example_daemon)"
    by (simp add: ex_defs example_auth_def)
  have c: "listener_stage ?x example_daemon ?req False = (Inr True, ?s4)"
    by (simp add: ex_defs)
  have manager: "mReconcile ?x (clusterManager ?s4) (map ClusterC (Clusters ?req))
      = ([(''allow-any'', ClusterC (example_cluster ''allow-any''))],
         [] @ ClusterC (example_cluster ''new'') # [], None)"
    by (simp add: ex_defs)
  have fails: "NewCluster ?x (ClusterC (example_cluster ''new'')) (logger ?s4)
      = (ClusterC (example_cluster ''new''), Some (Err ''cannot build the cluster''))"
    by (simp add: ex_defs)
  have pre_ok: "\<forall>c'\<in>set []. snd (NewCluster ?x c' (logger ?s4)) = None
                         \<or> snd (NewCluster ?x c' (logger ?s4)) = Some ErrRestartRequired"
    by simp
  from fatal_error_aborts_without_rollback [OF valid, where s = example_daemon and ?r1.0 = False
      and ?s1.0 = example_daemon and ?s2.0 = example_daemon and ?r2.0 = False and ?s3.0 = example_daemon
      and ?r3.0 = True and ?s4.0 = ?s4
      and m = "[(''allow-any'', ClusterC (example_cluster ''allow-any''))]" and pre = "[]"
      and c = "ClusterC (example_cluster ''new'')" and post = "[]" and err = None
      and ob = "ClusterC (example_cluster ''new'')" and msg = "''cannot build the cluster''"]
    a l b c manager fails pre_ok
  have "Reconcile ?x example_daemon ?req
          = (Returns (Some (Err ''cannot build the cluster'')),
             ?s4\<lparr>clusterManager := [(''allow-any'', ClusterC (example_cluster ''allow-any''))]\<rparr>)"
    by simp
  then show ?thesis
    by simp
qed


text \<open>The error of a manager is returned wrapped in a message that names the stage.\<close>

lemma admin_stage_manager_error:
  "mReconcile x (adminManager s) [AdminC (Admin req)] = (m, new, Some (Err msg)) \<Longrightarrow>
   admin_stage x s req r
     = (Inl (Err (''could not reconcile admin config: '' @ msg)), s\<lparr>adminManager := m\<rparr>)"
  by (simp add: admin_stage_def)

lemma auth_stage_manager_error:
  "mReconcile x (authManager s) [AuthC (Auth req)] = (m, new, Some (Err msg)) \<Longrightarrow>
   auth_stage x s req r
     = (Inl (Err (''could not reconcile auth config: '' @ msg)), s\<lparr>authManager := m\<rparr>)"
  by (simp add: auth_stage_def)

lemma listener_stage_manager_error:
  "mReconcile x (listenerManager s) (map ListenerC (Listeners req)) = (m, new, Some (Err msg)) \<Longrightarrow>
   listener_stage x s req r
     = (Inl (Err (''could not reconcile listener config: '' @ msg)), s\<lparr>listenerManager := m\<rparr>)"
  by (simp add: listener_stage_def)

lemma cluster_stage_manager_error:
  "mReconcile x (clusterManager s) (map ClusterC (Clusters req)) = (m, new, Some (Err msg)) \<Longrightarrow>
   cluster_stage x s req r
     = (Inl (Err (''could not reconcile cluster config: '' @ msg)), s\<lparr>clusterManager := m\<rparr>)"
  by (simp add: cluster_stage_def)

subsection \<open>The logger\<close>

lemma Reconcile_nothing_to_construct:
  assumes valid: "Validate x req = None"
    and admin: "mReconcile x (adminManager s) [AdminC (Admin req)] = (am, [], None)"
    and found: "mGet x am (DefaultAdminName x) = Some a"
    and auth: "mReconcile x (authManager s) [AuthC (Auth req)] = (um, [], None)"
    and listener: "mReconcile x (listenerManager s) (map ListenerC (Listeners req)) = (lm, [], None)"
    and cluster: "mReconcile x (clusterManager s) (map ClusterC (Clusters req)) = (cm, [], None)"
  shows "Reconcile x s req
           = (Returns None,
              s\<lparr>adminManager := am, authManager := um, listenerManager := lm, clusterManager := cm,
                logger := NewLoggerFactory (oLogLevel x a),
                log := NewLogger (NewLoggerFactory (oLogLevel x a)) ''stunner''\<rparr>)"
  using assms
  by (simp add: Reconcile_def admin_stage_def rebind_logger_def GetAdmin_def auth_stage_def
      listener_stage_def cluster_stage_def)

lemma with_logger_fields:
  "Validate (with_logger L x) = Validate x"
  "mReconcile (with_logger L x) = mReconcile x"
  "mUpsert (with_logger L x) = mUpsert x"
  "mGet (with_logger L x) = mGet x"
  "NewAdmin (with_logger L x) = NewAdmin x"
  "NewAuth (with_logger L x) = (\<lambda>c l. NewAuth x c L)"
  "NewListener (with_logger L x) = (\<lambda>c n l. NewListener x c n L)"
  "NewCluster (with_logger L x) = (\<lambda>c l. NewCluster x c L)"
  "oLogLevel (with_logger L x) = oLogLevel x"
  "DefaultAdminName (with_logger L x) = DefaultAdminName x"
  by (simp_all add: with_logger_def)

lemma with_logger_stages:
  "admin_stage (with_logger L x) s req r = admin_stage x s req r"
  "rebind_logger (with_logger L x) s = rebind_logger x s"
  "logger s = L \<Longrightarrow> auth_stage (with_logger L x) s req r = auth_stage x s req r"
  "logger s = L \<Longrightarrow> listener_stage (with_logger L x) s req r = listener_stage x s req r"
  "logger s = L \<Longrightarrow> cluster_stage (with_logger L x) s req r = cluster_stage x s req r"
  by (auto simp: with_logger_fields admin_stage_def rebind_logger_def GetAdmin_def auth_stage_def
      listener_stage_def cluster_stage_def Let_def split: prod.splits option.splits error.splits)

lemma stage_logger:
  "logger (snd (auth_stage x s req r)) = logger s \<and> log (snd (auth_stage x s req r)) = log s"
  "logger (snd (listener_stage x s req r)) = logger s \<and> log (snd (listener_stage x s req r)) = log s"
  "logger (snd (cluster_stage x s req r)) = logger s \<and> log (snd (cluster_stage x s req r)) = log s"
  using stage_frames(2) [of x s req r] stage_frames(3) [of x s req r] stage_frames(4) [of x s req r]
  by auto

lemma Reconcile_remaining_stages:
  assumes "Validate x req = None" "admin_stage x s req False = (Inr r1, s1)"
    "rebind_logger x s1 = Some s2"
  shows "Reconcile x s req = remaining_stages x s2 req r1"
  using assms by (simp add: Reconcile_def remaining_stages_def)

lemma later_stages:
  assumes L: "logger s2 = L"
  shows "remaining_stages x s2 req r1 = remaining_stages (with_logger L x) s2 req r1
     \<and> logger (snd (remaining_stages x s2 req r1)) = L
     \<and> log (snd (remaining_stages x s2 req r1)) = log s2"
proof -
  obtain v2 s3 where b: "auth_stage x s2 req r1 = (v2, s3)" by (cases "auth_stage x s2 req r1")
  with stage_logger(1) [of x s2 req r1] L have l3: "logger s3 = L" "log s3 = log s2" by simp_all
  have b': "auth_stage (with_logger L x) s2 req r1 = (v2, s3)"
    using b L by (simp add: with_logger_stages)
  show ?thesis
  proof (cases v2)
    case (Inl e)
    with b b' l3 show ?thesis by (simp add: remaining_stages_def)
  next
    case r2: (Inr r2)
    obtain v3 s4 where c: "listener_stage x s3 req r2 = (v3, s4)" by (cases "listener_stage x s3 req r2")
    with stage_logger(2) [of x s3 req r2] l3 have l4: "logger s4 = L" "log s4 = log s2" by simp_all
    have c': "listener_stage (with_logger L x) s3 req r2 = (v3, s4)"
      using c l3 by (simp add: with_logger_stages)
    show ?thesis
    proof (cases v3)
      case (Inl e)
      with b b' r2 c c' l4 show ?thesis by (simp add: remaining_stages_def)
    next
      case r3: (Inr r3)
      obtain v4 s5 where d: "cluster_stage x s4 req r3 = (v4, s5)" by (cases "cluster_stage x s4 req r3")
      with stage_logger(3) [of x s4 req r3] l4 have l5: "logger s5 = L" "log s5 = log s2" by simp_all
      have d': "cluster_stage (with_logger L x) s4 req r3 = (v4, s5)"
        using d l4 by (simp add: with_logger_stages)
      show ?thesis
        using b b' r2 c c' r3 d d' l5 by (cases v4) (simp_all add: remaining_stages_def)
    qed
  qed
qed

text \<open>
  C7: once the admin stage has ended without a fatal error, whatever its restart flag
  \<open>r1\<close>, the logger is rebound to the level of the admin object that the stage leaves:
  the call ends with that logger factory and its \<open>stunner\<close> logger, the auth, listener and
  cluster stages run on the daemon that has them, and their factories receive it
  (replacing the logger they are handed by it changes nothing). When the admin manager
  applies the desired admin configuration in place, the updated object having the desired
  level, and the other managers have nothing to construct and signal no restart,
  \<open>Reconcile\<close> returns nil and the logger is the one of the desired level.
\<close>

theorem logger_rebound_after_admin_stage:
  assumes valid: "Validate x req = None"
  shows "(admin_stage x s req False = (Inr r1, s1) \<and> GetAdmin x s1 = Some a \<longrightarrow>
            logger (snd (Reconcile x s req)) = NewLoggerFactory (oLogLevel x a)
            \<and> log (snd (Reconcile x s req)) = NewLogger (NewLoggerFactory (oLogLevel x a)) ''stunner''
            \<and> Reconcile x s req
                = remaining_stages x
                    (s1\<lparr>logger := NewLoggerFactory (oLogLevel x a),
                        log := NewLogger (NewLoggerFactory (oLogLevel x a)) ''stunner''\<rparr>) req r1
            \<and> Reconcile x s req = Reconcile (with_logger (NewLoggerFactory (oLogLevel x a)) x) s req)
       \<and> (mReconcile x (adminManager s) [AdminC (Admin req)] = (am, [], None)
            \<and> mGet x am (DefaultAdminName x) = Some a' \<and> oLogLevel x a' = LogLevel (Admin req)
            \<and> mReconcile x (authManager s) [AuthC (Auth req)] = (um, [], None)
            \<and> mReconcile x (listenerManager s) (map ListenerC (Listeners req)) = (lm, [], None)
            \<and> mReconcile x (clusterManager s) (map ClusterC (Clusters req)) = (cm, [], None) \<longrightarrow>
            Reconcile x s req
              = (Returns None,
                 s\<lparr>adminManager := am, authManager := um, listenerManager := lm, clusterManager := cm,
                   logger := NewLoggerFactory (LogLevel (Admin req)),
                   log := NewLogger (NewLoggerFactory (LogLevel (Admin req))) ''stunner''\<rparr>))"
proof (intro conjI impI)
  assume h: "admin_stage x s req False = (Inr r1, s1) \<and> GetAdmin x s1 = Some a"
  let ?L = "NewLoggerFactory (oLogLevel x a)"
  let ?s2 = "s1\<lparr>logger := ?L, log := NewLogger ?L ''stunner''\<rparr>"
  have l: "rebind_logger x s1 = Some ?s2"
    using h by (simp add: rebind_logger_def)
  have L: "logger ?s2 = ?L" by simp
  have valid': "Validate (with_logger ?L x) req = None"
    using valid by (simp add: with_logger_fields)
  note ls = later_stages [OF L, of x req r1]
  have r: "Reconcile x s req = remaining_stages x ?s2 req r1"
    using valid h l by (intro Reconcile_remaining_stages) simp_all
  have a': "admin_stage (with_logger ?L x) s req False = (Inr r1, s1)"
      "rebind_logger (with_logger ?L x) s1 = Some ?s2"
    using h l by (simp_all add: with_logger_stages)
  have r': "Reconcile (with_logger ?L x) s req = remaining_stages (with_logger ?L x) ?s2 req r1"
    using valid' a' by (intro Reconcile_remaining_stages)
  from ls have ls1: "remaining_stages x ?s2 req r1 = remaining_stages (with_logger ?L x) ?s2 req r1"
    and ls2: "logger (snd (remaining_stages x ?s2 req r1)) = ?L"
    and ls3: "log (snd (remaining_stages x ?s2 req r1)) = log ?s2"
    by blast+
  show "logger (snd (Reconcile x s req)) = ?L"
    by (simp only: r ls2)
  show "log (snd (Reconcile x s req)) = NewLogger ?L ''stunner''"
    by (simp add: r ls3)
  show "Reconcile x s req = remaining_stages x ?s2 req r1"
    by (rule r)
  show "Reconcile x s req = Reconcile (with_logger ?L x) s req"
    by (simp only: r r' ls1)
next
  assume h: "mReconcile x (adminManager s) [AdminC (Admin req)] = (am, [], None)
            \<and> mGet x am (DefaultAdminName x) = Some a' \<and> oLogLevel x a' = LogLevel (Admin req)
            \<and> mReconcile x (authManager s) [AuthC (Auth req)] = (um, [], None)
            \<and> mReconcile x (listenerManager s) (map ListenerC (Listeners req)) = (lm, [], None)
            \<and> mReconcile x (clusterManager s) (map ClusterC (Clusters req)) = (cm, [], None)"
  then show "Reconcile x s req
              = (Returns None,
                 s\<lparr>adminManager := am, authManager := um, listenerManager := lm, clusterManager := cm,
                   logger := NewLoggerFactory (LogLevel (Admin req)),
                   log := NewLogger (NewLoggerFactory (LogLevel (Admin req))) ''stunner''\<rparr>)"
    using Reconcile_nothing_to_construct [OF valid, of s am a' um lm cm] by simp
qed

theorem logger_rebound_after_admin_stage_witness:
  "Reconcile (example_collaborators factory_ok) example_daemon
          (example_config ''all:TRACE'' [example_listener ''A'' 3478, example_listener ''B'' 3479]
             [example_cluster ''allow-any''])
     = (Returns None,
        example_daemon\<lparr>adminManager := [(''default-admin-config'', AdminC \<lparr>LogLevel = ''all:TRACE''\<rparr>)],
          logger := NewLoggerFactory ''all:TRACE'',
          log := NewLogger (NewLoggerFactory ''all:TRACE'') ''stunner''\<rparr>)
   \<and> logger example_daemon = NewLoggerFactory ''all:INFO''
   \<and> Reconcile (with_logger (NewLoggerFactory ''all:TRACE'') (example_collaborators factory_ok))
          example_daemon
          (example_config ''all:TRACE'' [example_listener ''A'' 3478, example_listener ''B'' 3479]
             [example_cluster ''allow-any''])
     = Reconcile (example_collaborators factory_ok) example_daemon
          (example_config ''all:TRACE'' [example_listener ''A'' 3478, example_listener ''B'' 3479]
             [example_cluster ''allow-any''])"
proof -
  let ?x = "example_collaborators factory_ok"
  let ?req = "example_config ''all:TRACE'' [example_listener ''A'' 3478, example_listener ''B'' 3479]
             [example_cluster ''allow-any'']"
  let ?a = "AdminC \<lparr>LogLevel = ''all:TRACE''\<rparr>"
  let ?am = "[(''default-admin-config'', ?a)]"
  have valid: "Validate ?x ?req = None"
    by (simp add: ex_defs)
  have admin: "mReconcile ?x (adminManager example_daemon) [AdminC (Admin ?req)] = (?am, [], None)"
    by (simp add: ex_defs)
  have found: "mGet ?x ?am (DefaultAdminName ?x) = Some ?a"
    "oLogLevel ?x ?a = LogLevel (Admin ?req)"
    by (simp_all add: ex_defs)
  have auth: "mReconcile ?x (authManager example_daemon) [AuthC (Auth ?req)]
      = (authManager example_daemon, [], None)"
    by (simp add: ex_defs)
  have listener: "mReconcile ?x (listenerManager example_daemon) (map ListenerC (Listeners ?req))
      = (listenerManager example_daemon, [], None)"
    by (simp add: ex_defs)
  have cluster: "mReconcile ?x (clusterManager example_daemon) (map ClusterC (Clusters ?req))
      = (clusterManager example_daemon, [], None)"
    by (simp add: ex_defs)
  have stage: "admin_stage ?x example_daemon ?req False
      = (Inr False, example_daemon\<lparr>adminManager := ?am\<rparr>)"
    "GetAdmin ?x (example_daemon\<lparr>adminManager := ?am\<rparr>) = Some ?a"
    by (simp_all add: ex_defs)
  have level: "LogLevel (Admin ?req) = ''all:TRACE''" "oLogLevel ?x ?a = ''all:TRACE''"
    by (simp_all add: example_config_def example_collaborators_def)
  note inst = logger_rebound_after_admin_stage [OF valid, where s = example_daemon and am = ?am
      and a' = ?a and um = "authManager example_daemon"
      and lm = "listenerManager example_daemon" and cm = "clusterManager example_daemon"
      and ?r1.0 = False and ?s1.0 = "example_daemon\<lparr>adminManager := ?am\<rparr>" and a = ?a]
  from inst admin found auth listener cluster
  have "Reconcile ?x example_daemon ?req
              = (Returns None,
                 example_daemon\<lparr>adminManager := ?am, authManager := authManager example_daemon,
                   listenerManager := listenerManager example_daemon,
                   clusterManager := clusterManager example_daemon,
                   logger := NewLoggerFactory (LogLevel (Admin ?req)),
                   log := NewLogger (NewLoggerFactory (LogLevel (Admin ?req))) ''stunner''\<rparr>)"
    by blast
  then have 1: "Reconcile ?x example_daemon ?req
     = (Returns None,
        example_daemon\<lparr>adminManager := ?am, logger := NewLoggerFactory ''all:TRACE'',
          log := NewLogger (NewLoggerFactory ''all:TRACE'') ''stunner''\<rparr>)"
    by (simp add: level)
  from inst stage
  have "Reconcile ?x example_daemon ?req
          = Reconcile (with_logger (NewLoggerFactory (oLogLevel ?x ?a)) ?x) example_daemon ?req"
    by blast
  then have 2: "Reconcile (with_logger (NewLoggerFactory ''all:TRACE'') ?x) example_daemon ?req
          = Reconcile ?x example_daemon ?req"
    by (simp only: level)
  have 3: "logger example_daemon = NewLoggerFactory ''all:INFO''"
    by (simp add: example_daemon_def)
  from 1 2 3 show ?thesis
    by (simp only: simp_thms)
qed

section \<open>Properties that rest on the manager of the spec\<close>

lemma update_each_keys:
  "Manager_update_each key upd m cs new r = (res, m') \<Longrightarrow> map fst m' = map fst m"
proof (induction cs arbitrary: m new r)
  case Nil
  then show ?case by simp
next
  case (Cons c cs)
  show ?case
  proof (cases "map_of m (key c)")
    case None
    with Cons.prems have "Manager_update_each key upd m cs (new @ [c]) r = (res, m')" by simp
    then show ?thesis by (rule Cons.IH)
  next
    case (Some ob)
    then have k: "key c \<in> set (map fst m)"
      by (metis map_of_eq_None_iff option.distinct(1) set_map)
    show ?thesis
    proof (cases "upd ob c")
      case (Inr ob')
      with Some Cons.prems
      have "Manager_update_each key upd (AList.update (key c) ob' m) cs new r = (res, m')" by simp
      from Cons.IH [OF this] k show ?thesis by (simp add: update_keys)
    next
      case (Inl e)
      show ?thesis
      proof (cases e)
        case ErrRestartRequired
        with Some Inl Cons.prems have "Manager_update_each key upd m cs new True = (res, m')" by simp
        then show ?thesis by (rule Cons.IH)
      next
        case (Err msg)
        with Some Inl Cons.prems show ?thesis by simp
      qed
    qed
  qed
qed

lemma update_each_error:
  "Manager_update_each key upd m cs new r = (Inl e, m') \<Longrightarrow> \<exists>msg. e = Err msg"
proof (induction cs arbitrary: m new r)
  case Nil
  then show ?case by simp
next
  case (Cons c cs)
  then show ?case
    by (auto split: option.splits sum.splits error.splits)
qed

lemma update_each_toConstruct:
  "Manager_update_each key upd m cs new r = (Inr (new', r'), m') \<Longrightarrow>
   new' = new @ filter (\<lambda>c. key c \<notin> set (map fst m)) cs"
proof (induction cs arbitrary: m new r)
  case Nil
  then show ?case by simp
next
  case (Cons c cs)
  show ?case
  proof (cases "map_of m (key c)")
    case None
    then have k: "key c \<notin> set (map fst m)"
      by (simp add: map_of_eq_None_iff)
    from None Cons.prems have "Manager_update_each key upd m cs (new @ [c]) r = (Inr (new', r'), m')"
      by simp
    from Cons.IH [OF this] k show ?thesis by simp
  next
    case (Some ob)
    then have k: "key c \<in> set (map fst m)"
      by (metis map_of_eq_None_iff option.distinct(1) set_map)
    show ?thesis
    proof (cases "upd ob c")
      case (Inr ob')
      with Some Cons.prems
      have "Manager_update_each key upd (AList.update (key c) ob' m) cs new r = (Inr (new', r'), m')"
        by simp
      from Cons.IH [OF this] k show ?thesis by (simp add: update_keys)
    next
      case (Inl e)
      show ?thesis
      proof (cases e)
        case ErrRestartRequired
        with Some Inl Cons.prems
        have "Manager_update_each key upd m cs new True = (Inr (new', r'), m')" by simp
        from Cons.IH [OF this] k show ?thesis by simp
      next
        case (Err msg)
        with Some Inl Cons.prems show ?thesis by simp
      qed
    qed
  qed
qed

lemma keys_filter:
  "map fst (filter (\<lambda>(k, ob). P k) m) = filter P (map fst m)"
  by (induction m) auto

lemma Manager_Reconcile_result:
  assumes "Manager_Reconcile key upd m desired = (m', new, err)"
    and "err = None \<or> err = Some ErrRestartRequired"
  shows "map fst m' = filter (\<lambda>k. k \<in> set (map key desired)) (map fst m)
       \<and> new = filter (\<lambda>c. key c \<notin> set (map fst m)) desired"
proof -
  obtain res m1 where u: "Manager_update_each key upd m desired [] False = (res, m1)"
    by (cases "Manager_update_each key upd m desired [] False")
  show ?thesis
  proof (cases res)
    case (Inl e)
    with u update_each_error [of key upd m desired "[]" False e m1] assms
    show ?thesis
      by (auto simp: Manager_Reconcile_def)
  next
    case (Inr p)
    obtain n r where p: "p = (n, r)" by (cases p)
    from u Inr p assms(1)
    have m': "m' = filter (\<lambda>(k, ob). k \<in> set (map key desired)) m1" and n: "new = n"
      by (simp_all add: Manager_Reconcile_def)
    from u have "map fst m1 = map fst m" by (rule update_each_keys)
    with m' have 1: "map fst m' = filter (\<lambda>k. k \<in> set (map key desired)) (map fst m)"
      by (simp add: keys_filter)
    from u Inr p update_each_toConstruct [of key upd m desired "[]" False n r m1] n
    have "new = filter (\<lambda>c. key c \<notin> set (map fst m)) desired"
      by simp
    with 1 show ?thesis by simp
  qed
qed

lemma construct_upsert_keys:
  "construct new (Manager_Upsert oname) m cs = (None, m') \<Longrightarrow>
   set (map fst m') = set (map fst m) \<union> (\<lambda>c. oname (fst (new c))) ` set cs"
proof (induction cs arbitrary: m)
  case Nil
  then show ?case by simp
next
  case (Cons c cs)
  obtain ob err where n: "new c = (ob, err)" by (cases "new c")
  with Cons.prems
  have "construct new (Manager_Upsert oname) (Manager_Upsert oname m ob) cs = (None, m')"
    by (auto split: if_splits)
  from Cons.IH [OF this] n show ?case
    by (auto simp: Manager_Upsert_def dom_update)
qed

lemma reconcile_then_construct_keys:
  assumes rec: "Manager_Reconcile key upd m desired = (m1, new, err)"
    and ok: "err = None \<or> err = Some ErrRestartRequired"
    and con: "construct factory (Manager_Upsert oname) m1 new = (None, m2)"
    and names: "\<forall>c\<in>set desired. oname (fst (factory c)) = key c"
  shows "set (map fst m2) = key ` set desired"
proof -
  note r = Manager_Reconcile_result [OF rec ok]
  from construct_upsert_keys [OF con]
  have "set (map fst m2) = set (map fst m1) \<union> (\<lambda>c. oname (fst (factory c))) ` set new" .
  also have "\<dots> = {k \<in> set (map fst m). k \<in> key ` set desired}
                    \<union> key ` {c \<in> set desired. key c \<notin> set (map fst m)}"
    using names by (auto simp: r)
  also have "\<dots> = key ` set desired"
    by auto
  finally show ?thesis .
qed

lemma spec_managed_fields:
  assumes "spec_managed x upd oname"
  shows "mReconcile x = Manager_Reconcile (ConfigName (DefaultAdminName x) (DefaultAuthName x)) upd"
    and "mUpsert x = Manager_Upsert oname"
    and "mKeys x = Manager_Keys"
    and "mGet x = Manager_Get"
  using assms by (simp_all add: spec_managed_def)

lemma example_spec_managed:
  "spec_managed (example_collaborators newCluster) example_update example_name"
  by (simp add: spec_managed_def example_collaborators_def)

text \<open>
  C6: with the manager of the spec and factories that give an object the identity of its
  configuration, after a call of \<open>Reconcile\<close> that ends without a fatal error the keys of
  each manager are the identities of the desired configuration for its kind: the fixed
  key for the two singletons, the names of the desired listeners and of the desired
  clusters.
\<close>

theorem keys_are_the_desired_identities:
  assumes sm: "spec_managed x upd oname"
    and admin_name: "\<forall>c l. oname (fst (NewAdmin x (AdminC c) l)) = DefaultAdminName x"
    and auth_name: "\<forall>c l. oname (fst (NewAuth x (AuthC c) l)) = DefaultAuthName x"
    and listener_name: "\<forall>c n l. oname (fst (NewListener x (ListenerC c) n l)) = ListenerConfig.Name c"
    and cluster_name: "\<forall>c l. oname (fst (NewCluster x (ClusterC c) l)) = ClusterConfig.Name c"
    and valid: "Validate x req = None"
    and run: "Reconcile x s req = (Returns r, s')"
    and ok: "r = None \<or> r = Some ErrRestartRequired"
  shows "set (mKeys x (adminManager s')) = {DefaultAdminName x}
       \<and> set (mKeys x (authManager s')) = {DefaultAuthName x}
       \<and> set (mKeys x (listenerManager s')) = set (map ListenerConfig.Name (Listeners req))
       \<and> set (mKeys x (clusterManager s')) = set (map ClusterConfig.Name (Clusters req))"
proof -
  let ?key = "ConfigName (DefaultAdminName x) (DefaultAuthName x)"
  note f = spec_managed_fields [OF sm]
  from valid run ok obtain r1 s1 s2 r2 s3 r3 s4 r4 where
    a: "admin_stage x s req False = (Inr r1, s1)" and
    l: "rebind_logger x s1 = Some s2" and
    b: "auth_stage x s2 req r1 = (Inr r2, s3)" and
    c: "listener_stage x s3 req r2 = (Inr r3, s4)" and
    d: "cluster_stage x s4 req r3 = (Inr r4, s')"
    by (rule Reconcile_not_fatal)
  from a obtain m1 n1 e1 m1' where a':
    "mReconcile x (adminManager s) [AdminC (Admin req)] = (m1, n1, e1)"
    "e1 = None \<or> e1 = Some ErrRestartRequired"
    "construct (\<lambda>c. NewAdmin x c (logger s)) (mUpsert x) m1 n1 = (None, m1')"
    "s1 = s\<lparr>adminManager := m1'\<rparr>"
    by (rule admin_stage_Inr)
  from l obtain a0 where l': "s2 = s1\<lparr>logger := NewLoggerFactory (oLogLevel x a0),
              log := NewLogger (NewLoggerFactory (oLogLevel x a0)) ''stunner''\<rparr>"
    by (rule rebind_logger_Some)
  from b obtain m2 n2 e2 m2' where b':
    "mReconcile x (authManager s2) [AuthC (Auth req)] = (m2, n2, e2)"
    "e2 = None \<or> e2 = Some ErrRestartRequired"
    "construct (\<lambda>c. NewAuth x c (logger s2)) (mUpsert x) m2 n2 = (None, m2')"
    "s3 = s2\<lparr>authManager := m2'\<rparr>"
    by (rule auth_stage_Inr)
  from c obtain m3 n3 e3 m3' where c':
    "mReconcile x (listenerManager s3) (map ListenerC (Listeners req)) = (m3, n3, e3)"
    "e3 = None \<or> e3 = Some ErrRestartRequired"
    "construct (\<lambda>c. NewListener x c (net s3) (logger s3)) (mUpsert x) m3 n3 = (None, m3')"
    "s4 = s3\<lparr>listenerManager := m3'\<rparr>"
    by (rule listener_stage_Inr)
  from d obtain m4 n4 e4 m4' where d':
    "mReconcile x (clusterManager s4) (map ClusterC (Clusters req)) = (m4, n4, e4)"
    "e4 = None \<or> e4 = Some ErrRestartRequired"
    "construct (\<lambda>c. NewCluster x c (logger s4)) (mUpsert x) m4 n4 = (None, m4')"
    "s' = s4\<lparr>clusterManager := m4'\<rparr>"
    by (rule cluster_stage_Inr)
  have managers: "adminManager s' = m1'" "authManager s' = m2'" "listenerManager s' = m3'"
      "clusterManager s' = m4'"
    by (simp_all add: a'(4) l' b'(4) c'(4) d'(4))
  have "set (map fst m1') = ?key ` set [AdminC (Admin req)]"
    using a'(1-3) admin_name unfolding f
    by (intro reconcile_then_construct_keys [where factory = "\<lambda>c. NewAdmin x c (logger s)"])
       (auto simp: ConfigName_def)
  moreover have "set (map fst m2') = ?key ` set [AuthC (Auth req)]"
    using b'(1-3) auth_name unfolding f
    by (intro reconcile_then_construct_keys [where factory = "\<lambda>c. NewAuth x c (logger s2)"])
       (auto simp: ConfigName_def)
  moreover have "set (map fst m3') = ?key ` set (map ListenerC (Listeners req))"
    using c'(1-3) listener_name unfolding f
    by (intro reconcile_then_construct_keys
          [where factory = "\<lambda>c. NewListener x c (net s3) (logger s3)"])
       (auto simp: ConfigName_def)
  moreover have "set (map fst m4') = ?key ` set (map ClusterC (Clusters req))"
    using d'(1-3) cluster_name unfolding f
    by (intro reconcile_then_construct_keys [where factory = "\<lambda>c. NewCluster x c (logger s4)"])
       (auto simp: ConfigName_def)
  ultimately show ?thesis
    by (simp add: managers f Manager_Keys_def ConfigName_def image_image)
qed

theorem keys_are_the_desired_identities_witness:
  "fst (Reconcile (example_collaborators factory_ok) example_daemon
          (example_config ''all:INFO'' [example_listener ''B'' 3479, example_listener ''C'' 3480]
             [example_cluster ''allow-any''])) = Returns (Some ErrRestartRequired)
   \<and> Manager_Keys (listenerManager example_daemon) = [''A'', ''B'']
   \<and> set (Manager_Keys (listenerManager (snd (Reconcile (example_collaborators factory_ok) example_daemon
          (example_config ''all:INFO'' [example_listener ''B'' 3479, example_listener ''C'' 3480]
             [example_cluster ''allow-any''])))))
       = {''B'', ''C''}
   \<and> set (Manager_Keys (clusterManager (snd (Reconcile (example_collaborators factory_ok) example_daemon
          (example_config ''all:INFO'' [example_listener ''B'' 3479, example_listener ''C'' 3480]
             [example_cluster ''allow-any''])))))
       = {''allow-any''}"
proof -
  let ?x = "example_collaborators factory_ok"
  let ?req = "example_config ''all:INFO'' [example_listener ''B'' 3479, example_listener ''C'' 3480]
             [example_cluster ''allow-any'']"
  have valid: "Validate ?x ?req = None"
    by (simp add: ex_defs)
  have names: "\<forall>c l. example_name (fst (NewAdmin ?x (AdminC c) l)) = DefaultAdminName ?x"
    "\<forall>c l. example_name (fst (NewAuth ?x (AuthC c) l)) = DefaultAuthName ?x"
    "\<forall>c n l. example_name (fst (NewListener ?x (ListenerC c) n l)) = ListenerConfig.Name c"
    "\<forall>c l. example_name (fst (NewCluster ?x (ClusterC c) l)) = ClusterConfig.Name c"
    by (simp_all add: example_collaborators_def example_name_def ConfigName_def factory_ok_def)
  have "\<exists>s'. Reconcile ?x example_daemon ?req = (Returns (Some ErrRestartRequired), s')"
    by (simp add: ex_defs)
  then obtain s' where run: "Reconcile ?x example_daemon ?req = (Returns (Some ErrRestartRequired), s')"
    by blast
  have keys: "mKeys ?x = Manager_Keys"
    by (simp add: example_collaborators_def)
  have before: "Manager_Keys (listenerManager example_daemon) = [''A'', ''B'']"
    by (simp add: example_daemon_def Manager_Keys_def)
  from keys_are_the_desired_identities [OF example_spec_managed names valid run] run before
  show ?thesis
    by (simp add: keys) (simp add: example_config_def example_listener_def example_cluster_def)
qed

lemma Manager_Reconcile_nothing_stale:
  assumes rec: "Manager_Reconcile key upd m desired = (m', new, None)"
    and stale: "set (map fst m) \<subseteq> key ` set desired"
  shows "map fst m' = map fst m"
proof -
  from Manager_Reconcile_result [OF rec]
  have "map fst m' = filter (\<lambda>k. k \<in> set (map key desired)) (map fst m)" by simp
  also have "\<dots> = map fst m"
    using stale by (intro filter_True) auto
  finally show ?thesis .
qed

text \<open>
  C5: with the manager of the spec, when the desired configuration is the current state
  (each manager's \<open>Reconcile\<close> succeeds with nothing to construct and signals no restart,
  and no manager holds a key that is not desired), \<open>Reconcile\<close> returns nil and every
  manager lists the keys it listed before.
\<close>

theorem reconcile_same_configuration_is_idempotent:
  assumes sm: "spec_managed x upd oname"
    and valid: "Validate x req = None"
    and admin: "mReconcile x (adminManager s) [AdminC (Admin req)] = (am, [], None)"
    and auth: "mReconcile x (authManager s) [AuthC (Auth req)] = (um, [], None)"
    and listener: "mReconcile x (listenerManager s) (map ListenerC (Listeners req)) = (lm, [], None)"
    and cluster: "mReconcile x (clusterManager s) (map ClusterC (Clusters req)) = (cm, [], None)"
    and admin_stale: "set (mKeys x (adminManager s)) \<subseteq> {DefaultAdminName x}"
    and auth_stale: "set (mKeys x (authManager s)) \<subseteq> {DefaultAuthName x}"
    and listener_stale: "set (mKeys x (listenerManager s)) \<subseteq> set (map ListenerConfig.Name (Listeners req))"
    and cluster_stale: "set (mKeys x (clusterManager s)) \<subseteq> set (map ClusterConfig.Name (Clusters req))"
  shows "fst (Reconcile x s req) = Returns None
       \<and> mKeys x (adminManager (snd (Reconcile x s req))) = mKeys x (adminManager s)
       \<and> mKeys x (authManager (snd (Reconcile x s req))) = mKeys x (authManager s)
       \<and> mKeys x (listenerManager (snd (Reconcile x s req))) = mKeys x (listenerManager s)
       \<and> mKeys x (clusterManager (snd (Reconcile x s req))) = mKeys x (clusterManager s)"
proof -
  let ?key = "ConfigName (DefaultAdminName x) (DefaultAuthName x)"
  note f = spec_managed_fields [OF sm]
  have ka: "map fst am = map fst (adminManager s)"
    using admin admin_stale unfolding f
    by (intro Manager_Reconcile_nothing_stale [where key = ?key and desired = "[AdminC (Admin req)]"])
       (auto simp: Manager_Keys_def ConfigName_def)
  have ku: "map fst um = map fst (authManager s)"
    using auth auth_stale unfolding f
    by (intro Manager_Reconcile_nothing_stale [where key = ?key and desired = "[AuthC (Auth req)]"])
       (auto simp: Manager_Keys_def ConfigName_def)
  have kl: "map fst lm = map fst (listenerManager s)"
    using listener listener_stale unfolding f
    by (intro Manager_Reconcile_nothing_stale
          [where key = ?key and desired = "map ListenerC (Listeners req)"])
       (auto simp: Manager_Keys_def ConfigName_def image_image)
  have kc: "map fst cm = map fst (clusterManager s)"
    using cluster cluster_stale unfolding f
    by (intro Manager_Reconcile_nothing_stale
          [where key = ?key and desired = "map ClusterC (Clusters req)"])
       (auto simp: Manager_Keys_def ConfigName_def image_image)
  from Manager_Reconcile_result [OF admin [unfolded f]]
  have "DefaultAdminName x \<in> set (map fst (adminManager s))"
    by (auto simp: ConfigName_def split: if_splits)
  with ka have "DefaultAdminName x \<in> fst ` set am"
    by (metis set_map)
  then obtain a where "map_of am (DefaultAdminName x) = Some a"
    by (metis map_of_eq_None_iff not_Some_eq)
  then have found: "mGet x am (DefaultAdminName x) = Some a"
    by (simp add: f Manager_Get_def)
  from Reconcile_nothing_to_construct [OF valid admin found auth listener cluster] ka ku kl kc
  show ?thesis
    by (simp add: f Manager_Keys_def)
qed

theorem reconcile_same_configuration_is_idempotent_witness:
  "fst (Reconcile (example_collaborators factory_ok) example_daemon
          (example_config ''all:INFO'' [example_listener ''A'' 3478, example_listener ''B'' 3479]
             [example_cluster ''allow-any''])) = Returns None
   \<and> Manager_Keys (adminManager (snd (Reconcile (example_collaborators factory_ok) example_daemon
          (example_config ''all:INFO'' [example_listener ''A'' 3478, example_listener ''B'' 3479]
             [example_cluster ''allow-any'']))))
       = [''default-admin-config'']
   \<and> Manager_Keys (authManager (snd (Reconcile (example_collaborators factory_ok) example_daemon
          (example_config ''all:INFO'' [example_listener ''A'' 3478, example_listener ''B'' 3479]
             [example_cluster ''allow-any'']))))
       = [''default-auth-config'']
   \<and> Manager_Keys (listenerManager (snd (Reconcile (example_collaborators factory_ok) example_daemon
          (example_config ''all:INFO'' [example_listener ''A'' 3478, example_listener ''B'' 3479]
             [example_cluster ''allow-any'']))))
       = [''A'', ''B'']
   \<and> Manager_Keys (clusterManager (snd (Reconcile (example_collaborators factory_ok) example_daemon
          (example_config ''all:INFO'' [example_listener ''A'' 3478, example_listener ''B'' 3479]
             [example_cluster ''allow-any'']))))
       = [''allow-any'']"
proof -
  let ?x = "example_collaborators factory_ok"
  let ?req = "example_config ''all:INFO'' [example_listener ''A'' 3478, example_listener ''B'' 3479]
             [example_cluster ''allow-any'']"
  have valid: "Validate ?x ?req = None"
    by (simp add: ex_defs)
  have admin: "mReconcile ?x (adminManager example_daemon) [AdminC (Admin ?req)]
      = (adminManager example_daemon, [], None)"
    by (simp add: ex_defs)
  have auth: "mReconcile ?x (authManager example_daemon) [AuthC (Auth ?req)]
      = (authManager example_daemon, [], None)"
    by (simp add: ex_defs)
  have listener: "mReconcile ?x (listenerManager example_daemon) (map ListenerC (Listeners ?req))
      = (listenerManager example_daemon, [], None)"
    by (simp add: ex_defs)
  have cluster: "mReconcile ?x (clusterManager example_daemon) (map ClusterC (Clusters ?req))
      = (clusterManager example_daemon, [], None)"
    by (simp add: ex_defs)
  have stale: "set (mKeys ?x (adminManager example_daemon)) \<subseteq> {DefaultAdminName ?x}"
    "set (mKeys ?x (authManager example_daemon)) \<subseteq> {DefaultAuthName ?x}"
    "set (mKeys ?x (listenerManager example_daemon)) \<subseteq> set (map ListenerConfig.Name (Listeners ?req))"
    "set (mKeys ?x (clusterManager example_daemon)) \<subseteq> set (map ClusterConfig.Name (Clusters ?req))"
    by (simp_all add: ex_defs)
  have keys: "mKeys ?x = Manager_Keys"
    by (simp add: example_collaborators_def)
  from reconcile_same_configuration_is_idempotent
    [OF example_spec_managed valid admin auth listener cluster stale]
  show ?thesis
    by (simp add: keys) (simp add: example_daemon_def Manager_Keys_def)
qed

end
